theory Spec2Isabelle
  imports Main
begin

section \<open>JavaScript strings\<close>

text \<open>
  A JavaScript string is a sequence of 16-bit code units, and its \<open>length\<close> counts them.
  A code unit is embedded as the pair of its high and its low byte, so that \<open>length\<close>,
  equality, \<open>startsWith\<close>, \<open>includes\<close> and \<open>split\<close> are the ones of the language on every
  string. \<open>str\<close> embeds a text of one-byte characters: the high byte is zero.
\<close>

type_synonym unit16 = "char \<times> char"

type_synonym jsstring = "unit16 list"

definition str :: "string \<Rightarrow> jsstring" where
  "str s = map (Pair (CHR 0x00)) s"

definition nl :: jsstring where
  "nl = str [CHR 0x0A]"

text \<open>
  The white space that \<open>trim\<close> strips and the class \<open>\s\<close> matches: the characters
  WhiteSpace and LineTerminator of the language, that is U+0009 to U+000D, U+0020,
  U+00A0, U+1680, U+2000 to U+200A, U+2028, U+2029, U+202F, U+205F, U+3000 and U+FEFF.
\<close>

definition isWhiteSpace :: "unit16 \<Rightarrow> bool" where
  "isWhiteSpace u \<longleftrightarrow>
     (case u of (hi, lo) \<Rightarrow>
        (hi = CHR 0x00
           \<and> lo \<in> set [CHR 0x09, CHR 0x0A, CHR 0x0B, CHR 0x0C, CHR 0x0D, CHR 0x20, CHR 0xA0])
        \<or> (hi = CHR 0x16 \<and> lo = CHR 0x80)
        \<or> (hi = CHR 0x20
           \<and> lo \<in> set [CHR 0x00, CHR 0x01, CHR 0x02, CHR 0x03, CHR 0x04, CHR 0x05, CHR 0x06,
                        CHR 0x07, CHR 0x08, CHR 0x09, CHR 0x0A, CHR 0x28, CHR 0x29, CHR 0x2F,
                        CHR 0x5F])
        \<or> (hi = CHR 0x30 \<and> lo = CHR 0x00)
        \<or> (hi = CHR 0xFE \<and> lo = CHR 0xFF))"

definition trim :: "jsstring \<Rightarrow> jsstring" where
  "trim s = rev (dropWhile isWhiteSpace (rev (dropWhile isWhiteSpace s)))"

text \<open>
  \<open>toLowerCase\<close> is the engine's: its table of case mappings is not part of the program.
  Every function that lower-cases takes the mapping as its first argument, named
  \<open>toLowerCase\<close>, and the theorems hold for every mapping. Two mappings stand for the
  engine in the concrete runs below. \<open>asciiToLowerCase\<close> maps the letters A to Z and
  nothing else; it is what the engine's mapping does on a text whose capital letters are
  all ASCII, and it is the case folding of a regular expression with the flag \<open>i\<close> on
  an ASCII pattern. \<open>latin1ToLowerCase\<close> maps the capital letters up to U+00FF, that is A
  to Z and U+00C0 to U+00DE without the multiplication sign U+00D7, to the letter 32
  places above; it is what the engine's mapping does on a text of characters up to
  U+00FF.
\<close>

definition asciiLowerUnit :: "unit16 \<Rightarrow> unit16" where
  "asciiLowerUnit u =
     (case u of (hi, lo) \<Rightarrow>
        if hi = CHR 0x00
        then (case map_of (zip ''ABCDEFGHIJKLMNOPQRSTUVWXYZ'' ''abcdefghijklmnopqrstuvwxyz'') lo of
                None \<Rightarrow> u | Some d \<Rightarrow> (hi, d))
        else u)"

definition asciiToLowerCase :: "jsstring \<Rightarrow> jsstring" where
  "asciiToLowerCase s = map asciiLowerUnit s"



fun startsWith :: "'a list \<Rightarrow> 'a list \<Rightarrow> bool" where
  "startsWith s [] = True"
| "startsWith [] (p # ps) = False"
| "startsWith (c # cs) (p # ps) = (c = p \<and> startsWith cs ps)"

text \<open>\<open>s.includes(sub)\<close>: \<open>sub\<close> occurs in \<open>s\<close> as a contiguous run.\<close>

fun includesStr :: "'a list \<Rightarrow> 'a list \<Rightarrow> bool" where
  "includesStr [] sub = (sub = [])"
| "includesStr (c # cs) sub = (startsWith (c # cs) sub \<or> includesStr cs sub)"

text \<open>\<open>s.split(' ')\<close>: a new piece starts after every separator, so two separators in a
  row give an empty piece.\<close>

fun splitOn :: "('a \<Rightarrow> bool) \<Rightarrow> 'a list \<Rightarrow> 'a list list" where
  "splitOn p [] = [[]]"
| "splitOn p (c # cs) =
     (if p c then [] # splitOn p cs
      else (case splitOn p cs of [] \<Rightarrow> [[c]] | t # ts \<Rightarrow> (c # t) # ts))"

text \<open>\<open>s.split(/\s+/)\<close>: a maximal run of separators separates two pieces.\<close>

fun splitRuns :: "('a \<Rightarrow> bool) \<Rightarrow> 'a list \<Rightarrow> 'a list list" where
  "splitRuns p [] = [[]]"
| "splitRuns p [c] = (if p c then [[], []] else [[c]])"
| "splitRuns p (c # d # cs) =
     (if p c then (if p d then splitRuns p (d # cs) else [] # splitRuns p (d # cs))
      else (case splitRuns p (d # cs) of [] \<Rightarrow> [[c]] | t # ts \<Rightarrow> (c # t) # ts))"

definition space :: unit16 where
  "space = (CHR 0x00, CHR 0x20)"

text \<open>\<open>[...new Set(xs)]\<close>: a Set keeps its members in insertion order and ignores a
  value it already holds.\<close>

fun newSetFrom :: "'a list \<Rightarrow> 'a list \<Rightarrow> 'a list" where
  "newSetFrom seen [] = []"
| "newSetFrom seen (x # xs) =
     (if x \<in> set seen then newSetFrom seen xs else x # newSetFrom (seen @ [x]) xs)"

definition newSet :: "'a list \<Rightarrow> 'a list" where
  "newSet xs = newSetFrom [] xs"

section \<open>The widget\<close>

datatype role = User | Assistant

text \<open>An entry of \<open>this.messages\<close>. Ids come from the clock and a random number in the
  source; the model draws them from a counter, so they are fresh.\<close>

record message =
  msgId :: nat
  msgType :: role
  content :: jsstring

text \<open>A child of \<open>#chatbot-messages\<close>: a message bubble or the loading placeholder.\<close>

datatype element = MessageEl nat role jsstring | LoadingEl nat

fun elementId :: "element \<Rightarrow> nat" where
  "elementId (MessageEl i r c) = i"
| "elementId (LoadingEl i) = i"

text \<open>A callback handed to \<open>setTimeout\<close> without keeping its handle. The two timers whose
  handles are kept are fields of the widget.\<close>

datatype timeout =
    AllowSuggestions
  | AfterSend
  | ShowFollowUp "jsstring list" "jsstring option"
  | ShowGreeting "jsstring list"

text \<open>
  The fields of \<open>ChatbotWidget\<close> that the coordinator and the session controller use,
  followed by the part of the document they read and write. \<open>autocompleteTimeout\<close> and
  \<open>suggestionsTimeout\<close> are \<open>True\<close> while the timer of that name is armed and has not
  fired (a handle that has fired behaves like \<open>null\<close>: clearing it does nothing).
  \<open>autocompleteRendering\<close> counts how often the items of the dropdown have been built:
  \<open>showAutocomplete\<close> empties the dropdown and creates new item elements, so an item of an
  earlier rendering is no longer in the document. \<open>requests\<close> is the log of the calls
  made to the backend, as (operation, query).
\<close>

record widget =
  apiUrl :: jsstring
  messages :: "message list"
  currentAutocompleteIndex :: int
  autocompleteItems :: "jsstring list"
  suggestionsShown :: bool
  usedSuggestions :: "jsstring list"
  autocompleteTimeout :: bool
  suggestionsTimeout :: bool
  preventSuggestions :: bool
  inputValue :: jsstring
  inputFocused :: bool
  messagesEl :: "element list"
  autocompleteDisplay :: bool
  autocompleteShow :: bool
  autocompleteEl :: "jsstring list"
  autocompleteRendering :: nat
  suggestionsDisplay :: bool
  suggestionsCollapsed :: bool
  suggestionsTitle :: jsstring
  chipsEl :: "jsstring list"
  settingsOpen :: bool
  timeouts :: "timeout list"
  pendingQueries :: "nat list"
  requests :: "(string \<times> jsstring) list"
  nextId :: nat

text \<open>The state the constructor and \<open>createWidget\<close> leave: no message, both surfaces
  hidden (\<open>#chatbot-suggestions\<close> is created with \<open>display: none\<close>, \<open>#chatbot-autocomplete\<close>
  empty and without the class \<open>show\<close>).\<close>

definition initial :: "jsstring \<Rightarrow> widget" where
  "initial url =
     \<lparr>apiUrl = url, messages = [], currentAutocompleteIndex = -1, autocompleteItems = [],
      suggestionsShown = False, usedSuggestions = [], autocompleteTimeout = False,
      suggestionsTimeout = False, preventSuggestions = False, inputValue = [],
      inputFocused = False, messagesEl = [], autocompleteDisplay = False,
      autocompleteShow = False, autocompleteEl = [], autocompleteRendering = 0,
      suggestionsDisplay = False, suggestionsCollapsed = False,
      suggestionsTitle = str ''Suggested Questions'', chipsEl = [],
      settingsOpen = False, timeouts = [], pendingQueries = [], requests = [], nextId = 0\<rparr>"

definition autocompleteVisible :: "widget \<Rightarrow> bool" where
  "autocompleteVisible w \<longleftrightarrow> autocompleteDisplay w"

definition suggestionsVisible :: "widget \<Rightarrow> bool" where
  "suggestionsVisible w \<longleftrightarrow> suggestionsDisplay w"

text \<open>At most one of the two surfaces is displayed.\<close>

definition exclusive :: "widget \<Rightarrow> bool" where
  "exclusive w \<longleftrightarrow> \<not> (autocompleteVisible w \<and> suggestionsVisible w)"

subsection \<open>Hiding and showing the two surfaces\<close>

definition hideSuggestions :: "widget \<Rightarrow> widget" where
  "hideSuggestions w =
     w\<lparr>suggestionsTimeout := False, suggestionsDisplay := False,
       suggestionsCollapsed := False, chipsEl := [], suggestionsShown := False\<rparr>"

definition hideAutocomplete :: "widget \<Rightarrow> widget" where
  "hideAutocomplete w =
     (let w1 = w\<lparr>autocompleteShow := False, autocompleteDisplay := False,
                  currentAutocompleteIndex := -1, autocompleteTimeout := False\<rparr>
      in if trim (inputValue w1) = [] then w1\<lparr>timeouts := timeouts w1 @ [AllowSuggestions]\<rparr>
         else w1)"

text \<open>The items are kept as the suggestion each one carries; the markup that
  \<open>highlightMatch\<close> adds around the matching words is presentation.\<close>

definition showAutocomplete :: "jsstring list \<Rightarrow> jsstring \<Rightarrow> widget \<Rightarrow> widget" where
  "showAutocomplete suggestions query w =
     (let w1 = hideSuggestions w;
          w2 = w1\<lparr>suggestionsTimeout := False\<rparr>;
          w3 = w2\<lparr>preventSuggestions := True\<rparr>;
          w4 = w3\<lparr>suggestionsDisplay := False\<rparr>
      in w4\<lparr>autocompleteEl := suggestions,
            autocompleteRendering := Suc (autocompleteRendering w4),
            autocompleteItems := suggestions,
            currentAutocompleteIndex := -1, autocompleteDisplay := True,
            autocompleteShow := True\<rparr>)"

definition finalSuggestions :: "jsstring list \<Rightarrow> jsstring list \<Rightarrow> jsstring list" where
  "finalSuggestions used suggestions =
     (let uniqueSuggestions = newSet suggestions;
          unusedSuggestions = filter (\<lambda>s. s \<notin> set used) uniqueSuggestions;
          final = take 3 unusedSuggestions
      in if length final < 3 \<and> length uniqueSuggestions > length unusedSuggestions
         then (let usedButAvailable = filter (\<lambda>s. s \<in> set used) uniqueSuggestions;
                   needed = 3 - length final
               in final @ take needed usedButAvailable)
         else final)"

definition showSuggestions :: "jsstring list \<Rightarrow> jsstring option \<Rightarrow> widget \<Rightarrow> widget" where
  "showSuggestions suggestions title w =
     (let w1 = hideAutocomplete w;
          w2 = w1\<lparr>autocompleteTimeout := False\<rparr>;
          w3 = w2\<lparr>preventSuggestions := False\<rparr>;
          w4 = w3\<lparr>autocompleteDisplay := False, autocompleteShow := False\<rparr>;
          w5 = w4\<lparr>chipsEl := []\<rparr>;
          w6 = w5\<lparr>suggestionsDisplay := False, suggestionsCollapsed := False\<rparr>
      in if suggestionsShown w6 \<and> suggestions \<noteq> [] \<and> chipsEl w6 \<noteq> [] then w6
         else
           (let w7 = w6\<lparr>suggestionsCollapsed := False\<rparr>;
                w8 = (case title of
                        None \<Rightarrow> w7
                      | Some t \<Rightarrow> if t = [] then w7 else w7\<lparr>suggestionsTitle := t\<rparr>);
                w9 = w8\<lparr>chipsEl := []\<rparr>
            in if suggestions = []
               then w9\<lparr>suggestionsDisplay := False, suggestionsShown := False\<rparr>
               else w9\<lparr>chipsEl := finalSuggestions (usedSuggestions w9) suggestions,
                       suggestionsDisplay := True, suggestionsShown := True\<rparr>))"

definition allSuggestions :: "jsstring list" where
  "allSuggestions =
     map str
       [''What are all the column names in this file?'',
        ''How many consignments are there in total?'',
        ''What is the total transportation cost?'',
        ''What are all the source locations?'',
        ''What products are being shipped?'']"

definition suggestionsToShow :: "jsstring list \<Rightarrow> jsstring list" where
  "suggestionsToShow used =
     (let unusedSuggestions = filter (\<lambda>s. s \<notin> set used) allSuggestions
      in if length unusedSuggestions > 0 then take 3 unusedSuggestions
         else take 3 allSuggestions)"

definition showSuggestionsIfAvailable :: "widget \<Rightarrow> widget" where
  "showSuggestionsIfAvailable w =
     (if length (trim (inputValue w)) > 0 then w
      else (let toShow = suggestionsToShow (usedSuggestions w)
            in if length toShow > 0 then showSuggestions toShow None w else w))"

text \<open>The selection policy in the words of the specification: deduplicate keeping the
  first occurrence, split into unused and used, take up to three unused, then fill from
  the used ones up to three.\<close>

definition firstSeen :: "'a list \<Rightarrow> 'a list" where
  "firstSeen xs = rev (remdups (rev xs))"

definition policySpec :: "jsstring list \<Rightarrow> jsstring list \<Rightarrow> jsstring list" where
  "policySpec used candidates =
     take 3 (filter (\<lambda>s. s \<notin> set used) (firstSeen candidates)
             @ filter (\<lambda>s. s \<in> set used) (firstSeen candidates))"

section \<open>The backend as seen by the widget\<close>

text \<open>What \<open>catch\<close> receives: the \<open>name\<close> and \<open>message\<close> of the error.\<close>

record js_error =
  errName :: jsstring
  errMessage :: jsstring

text \<open>What \<open>response.json()\<close> gives: the parsed payload, or the error it throws on a
  payload that is not JSON.\<close>

datatype 'a body = Malformed js_error | Json 'a

text \<open>What \<open>await fetch(...)\<close> gives: a rejection, or a response with its \<open>ok\<close> flag, its
  status and its payload.\<close>

datatype 'a fetch_result = Rejected js_error | Response bool nat "'a body"

text \<open>The payloads. An absent or empty string field is \<open>[]\<close> (both are falsy), an absent
  or empty \<open>suggestions\<close> array of a greeting or an answer is \<open>[]\<close> (both fail the test
  \<open>suggestions && suggestions.length > 0\<close>). The \<open>suggestions\<close> of an autocomplete
  payload is \<open>None\<close> when the field is absent or not an array; its entries are the
  strings the backend sends.\<close>

record greet_data =
  g_message :: jsstring
  g_has_data :: bool
  g_suggestions :: "jsstring list"

record query_data =
  q_answer :: jsstring
  q_error :: jsstring
  q_suggestions :: "jsstring list"
  q_follow_up_message :: "jsstring option"

type_synonym autocomplete_data = "jsstring list option"

text \<open>The rejection of a \<open>fetch\<close> whose signal was aborted by \<open>controller.abort()\<close>: a
  \<open>DOMException\<close> named \<open>AbortError\<close>; its message is the browser's.\<close>

definition abortError :: "jsstring \<Rightarrow> js_error" where
  "abortError browserMessage = \<lparr>errName = str ''AbortError'', errMessage = browserMessage\<rparr>"

text \<open>How far a call of an \<open>async\<close> function gets before control goes back to the browser:
  it raised, it returned, or it waits for a \<open>fetch\<close> it has just made.\<close>

datatype 'a step = Raised js_error | Returned 'a | Awaits 'a

text \<open>The widget after such a call: the one passed in when the call raised.\<close>

definition afterStep :: "widget \<Rightarrow> widget step \<Rightarrow> widget" where
  "afterStep w s = (case s of Raised e \<Rightarrow> w | Returned w' \<Rightarrow> w' | Awaits w' \<Rightarrow> w')"

text \<open>The lookup was answered with a status that is not OK.\<close>

definition nonOk :: "'a fetch_result \<Rightarrow> bool" where
  "nonOk r \<longleftrightarrow> (case r of Rejected e \<Rightarrow> False | Response ok status b \<Rightarrow> \<not> ok)"

text \<open>The lookup was answered OK with a suggestion list that is not empty.\<close>

definition yieldsSuggestions :: "autocomplete_data fetch_result \<Rightarrow> bool" where
  "yieldsSuggestions r \<longleftrightarrow>
     (case r of
        Rejected e \<Rightarrow> False
      | Response ok status b \<Rightarrow>
          ok \<and> (case b of Malformed e \<Rightarrow> False | Json None \<Rightarrow> False
                           | Json (Some suggestions) \<Rightarrow> suggestions \<noteq> []))"

section \<open>The message list\<close>

definition addMessage :: "role \<Rightarrow> jsstring \<Rightarrow> widget \<Rightarrow> widget" where
  "addMessage type text w =
     w\<lparr>messagesEl := messagesEl w @ [MessageEl (nextId w) type text],
       messages := messages w @ [\<lparr>msgId = nextId w, msgType = type, content = text\<rparr>],
       nextId := Suc (nextId w)\<rparr>"

definition addLoadingMessage :: "widget \<Rightarrow> nat \<times> widget" where
  "addLoadingMessage w =
     (nextId w, w\<lparr>messagesEl := messagesEl w @ [LoadingEl (nextId w)],
                  nextId := Suc (nextId w)\<rparr>)"

text \<open>\<open>getElementById\<close> finds the first element with the id, if there is one.\<close>

fun removeById :: "nat \<Rightarrow> element list \<Rightarrow> element list" where
  "removeById i [] = []"
| "removeById i (e # es) = (if elementId e = i then es else e # removeById i es)"

definition removeMessage :: "nat \<Rightarrow> widget \<Rightarrow> widget" where
  "removeMessage messageId w = w\<lparr>messagesEl := removeById messageId (messagesEl w)\<rparr>"

section \<open>The suggestion resolver\<close>

definition keywordTable :: "(string \<times> string list) list" where
  "keywordTable =
     [(''what'',
       [''What are all the column names in this dataset?'',
        ''What is the total transportation cost?'',
        ''What are all the source locations?'',
        ''What products are being shipped?'',
        ''What is the total weight?'']),
      (''how'',
       [''How many consignments are there in total?'',
        ''How many records are present in the file?'',
        ''How many unique customers are represented?'',
        ''How many source locations are there?'']),
      (''which'',
       [''Which transportation mode has the highest average transportation cost?'',
        ''Which source location dispatches the most consignments?'',
        ''Which destination location receives the most consignments?'']),
      (''when'',
       [''What is the earliest dispatch date in the dataset?'',
        ''What is the latest dispatch date in the dataset?'']),
      (''where'',
       [''What are all unique source locations in the dataset?'',
        ''What are all unique destination locations in the dataset?'']),
      (''show'',
       [''What are all the column names in this dataset?'',
        ''What are all unique products in the dataset?'',
        ''What are all unique customers in the dataset?'']),
      (''list'',
       [''What are all the column names in this dataset?'',
        ''What are all unique products in the dataset?'',
        ''What are all unique source locations in the dataset?'']),
      (''weight'',
       [''What is the total weight of all shipments?'',
        ''What is the average weight per consignment?'',
        ''How does average weight per consignment vary by transportation mode?'',
        ''What is the weight per case ratio for each product?'']),
      (''kg'',
       [''What is the total weight of all shipments?'',
        ''What is the average weight per consignment?'',
        ''What is the cost per kilogram for each consignment?'']),
      (''kilogram'',
       [''What is the total weight of all shipments?'',
        ''What is the average weight per consignment?'',
        ''What is the cost per kilogram for each consignment?'']),
      (''cost'',
       [''What is the total transportation cost across all consignments?'',
        ''What is the average transportation cost per consignment?'',
        ''What is the cost per case for each consignment?'',
        ''What is the cost per kilogram for each consignment?'']),
      (''price'',
       [''What is the total transportation cost across all consignments?'',
        ''What is the average transportation cost per consignment?'']),
      (''money'',
       [''What is the total transportation cost across all consignments?'',
        ''What is the total consignment MRP value across all records?'']),
      (''rupee'',
       [''What is the total transportation cost across all consignments?'',
        ''What is the average transportation cost per consignment?'']),
      (''volume'',
       [''What is the average volume across all consignments?'',
        ''What is the total volume by transportation mode?'',
        ''What is the average volume fill percentage across all shipments?'']),
      (''cubic'',
       [''What is the average volume across all consignments?'',
        ''What is the total volume by transportation mode?'']),
      (''product'',
       [''What is the unique count of products in the dataset?'',
        ''What are all unique products in the dataset?'',
        ''Which product appears most frequently in the dataset?'',
        ''What is the weight per case ratio for each product?'']),
      (''item'',
       [''What is the unique count of products in the dataset?'',
        ''What are all unique products in the dataset?'']),
      (''customer'',
       [''How many unique customers are represented?'',
        ''What are all unique customers in the dataset?'',
        ''Which customer has the highest number of consignments?'',
        ''Which customer has the highest total transportation cost?'']),
      (''client'',
       [''How many unique customers are represented?'',
        ''What are all unique customers in the dataset?'']),
      (''consignment'',
       [''What is the unique count of consignment numbers?'',
        ''How many records are present in the file?'',
        ''What is the average transportation cost per consignment?'',
        ''What is the average weight per consignment?'']),
      (''order'',
       [''How many unique orders are there in the dataset?'',
        ''Which orders contain the most cases?'']),
      (''shipment'',
       [''What is the total weight of all shipments?'',
        ''What is the total transportation cost across all consignments?'']),
      (''source'',
       [''What is the unique count of source locations?'',
        ''What are all unique source locations in the dataset?'',
        ''What are the unique source types available?'',
        ''How many consignments originate from each source location?'']),
      (''destination'',
       [''What is the unique count of destination locations?'',
        ''What are all unique destination locations in the dataset?'',
        ''What are the unique destination types available?'',
        ''How many consignments are delivered to each destination location?'']),
      (''location'',
       [''What is the unique count of source locations?'',
        ''What is the unique count of destination locations?'',
        ''What are all unique source locations in the dataset?'',
        ''What are all unique destination locations in the dataset?'']),
      (''mode'',
       [''What are the unique transportation modes available?'',
        ''How many consignments use each transportation mode?'',
        ''What is the total transportation cost by transportation mode?'']),
      (''transportation'',
       [''What are the unique transportation modes available?'',
        ''What is the total transportation cost across all consignments?'',
        ''What is the total transportation cost by transportation mode?'']),
      (''vehicle'',
       [''What are the unique transportation modes available?'',
        ''How many consignments use each transportation mode?'']),
      (''truck'',
       [''What are the unique transportation modes available?'',
        ''How many consignments use each transportation mode?'']),
      (''case'',
       [''What is the total number of cases shipped across all consignments?'',
        ''What is the average number of cases per consignment?'',
        ''What is the cost per case for each consignment?'',
        ''What is the weight per case ratio for each product?'']),
      (''cases'',
       [''What is the total number of cases shipped across all consignments?'',
        ''What is the average number of cases per consignment?'',
        ''Which orders contain the most cases?''])]"
definition keywordMap :: "(jsstring \<times> jsstring list) list" where
  "keywordMap = map (\<lambda>(keyword, keywordSuggestions). (str keyword, map str keywordSuggestions))
                    keywordTable"

text \<open>The value of \<open>keywordMap[word]\<close>: one of the lists above or, for the two lower-case
  names every object inherits, the inherited value. The other inherited names, such as
  \<open>toString\<close> and \<open>hasOwnProperty\<close>, hold a capital letter, which a word of a
  lower-cased query never does.\<close>

datatype js_value = Arr "jsstring list" | ObjectConstructor | ObjectPrototype

definition keywordMapGet :: "jsstring \<Rightarrow> js_value option" where
  "keywordMapGet word =
     (case map_of keywordMap word of
        Some l \<Rightarrow> Some (Arr l)
      | None \<Rightarrow> if word = str ''constructor'' then Some ObjectConstructor
                else if word = str ''__proto__'' then Some ObjectPrototype
                else None)"

text \<open>The first loop: the first keyword the query starts with whose list has a match.\<close>

fun starterMatch ::
  "(jsstring \<Rightarrow> jsstring) \<Rightarrow> jsstring \<Rightarrow> jsstring \<Rightarrow> (jsstring \<times> jsstring list) list \<Rightarrow>
   jsstring list" where
  "starterMatch toLowerCase trimmedQuery lastWord [] = []"
| "starterMatch toLowerCase trimmedQuery lastWord ((keyword, keywordSuggestions) # rest) =
     (if startsWith trimmedQuery keyword
      then (let matching = filter (\<lambda>s. startsWith (toLowerCase s) trimmedQuery
                                     \<or> includesStr (toLowerCase s) lastWord) keywordSuggestions
            in if length matching > 0 then matching
               else starterMatch toLowerCase trimmedQuery lastWord rest)
      else starterMatch toLowerCase trimmedQuery lastWord rest)"

text \<open>The second loop: the value under the first word of the query that is a key.\<close>

fun wordMatch :: "jsstring list \<Rightarrow> js_value" where
  "wordMatch [] = Arr []"
| "wordMatch (word # ws) =
     (case keywordMapGet word of None \<Rightarrow> wordMatch ws | Some v \<Rightarrow> v)"

definition localSuggestions :: "(jsstring \<Rightarrow> jsstring) \<Rightarrow> jsstring \<Rightarrow> js_value" where
  "localSuggestions toLowerCase trimmedQuery =
     (let words = splitRuns isWhiteSpace trimmedQuery;
          lastWord = last words;
          queryWords = splitRuns isWhiteSpace trimmedQuery;
          suggestions = starterMatch toLowerCase trimmedQuery lastWord keywordMap
      in if length suggestions = 0 then wordMatch queryWords else Arr suggestions)"

definition relevant :: "(jsstring \<Rightarrow> jsstring) \<Rightarrow> jsstring \<Rightarrow> jsstring \<Rightarrow> bool" where
  "relevant toLowerCase trimmedQuery s \<longleftrightarrow>
     includesStr (toLowerCase s) trimmedQuery
     \<or> list_ex (\<lambda>word. includesStr (toLowerCase s) word)
          (splitOn (\<lambda>c. c = space) trimmedQuery)"

definition logRequest :: "string \<Rightarrow> jsstring \<Rightarrow> widget \<Rightarrow> widget" where
  "logRequest operation query w = w\<lparr>requests := requests w @ [(operation, query)]\<rparr>"

text \<open>
  \<open>handleAutocomplete\<close> up to its first \<open>await\<close>: the two guards, the keyword table and,
  when the table gives nothing, the \<open>fetch\<close> of the whole query. \<open>Raised\<close> is the TypeError
  of \<open>suggestions.slice\<close> when \<open>suggestions\<close> is the inherited \<open>constructor\<close>; it is raised
  outside the \<open>try\<close>, and nothing has been changed at that point.
\<close>

definition typeError :: js_error where
  "typeError =
     \<lparr>errName = str ''TypeError'', errMessage = str ''suggestions.slice is not a function''\<rparr>"

definition handleAutocomplete ::
  "(jsstring \<Rightarrow> jsstring) \<Rightarrow> jsstring \<Rightarrow> widget \<Rightarrow> widget step" where
  "handleAutocomplete toLowerCase query w =
     (if length (trim query) < 1 then Returned (hideAutocomplete w)
      else
        (let trimmedQuery = toLowerCase (trim query)
         in if length trimmedQuery < 2 then Returned (hideAutocomplete w)
            else
              (case localSuggestions toLowerCase trimmedQuery of
                 Arr suggestions \<Rightarrow>
                   if length suggestions > 0
                   then Returned (showAutocomplete (take 5 suggestions) (trim query) w)
                   else Awaits (logRequest ''autocomplete'' trimmedQuery w)
               | ObjectConstructor \<Rightarrow> Raised typeError
               | ObjectPrototype \<Rightarrow> Awaits (logRequest ''autocomplete'' trimmedQuery w))))"

text \<open>The call goes on when the \<open>fetch\<close> of the whole query has settled with \<open>r1\<close>; \<open>w\<close> is
  the widget at that moment. It ends, or makes the \<open>fetch\<close> of the last word and waits
  again. Every exception raised inside the \<open>try\<close> ends in \<open>hideAutocomplete\<close>.\<close>

definition handleAutocomplete_resume ::
  "(jsstring \<Rightarrow> jsstring) \<Rightarrow> jsstring \<Rightarrow> autocomplete_data fetch_result \<Rightarrow> widget \<Rightarrow>
   widget step" where
  "handleAutocomplete_resume toLowerCase query r1 w =
     (let trimmedQuery = toLowerCase (trim query);
          words = splitRuns isWhiteSpace trimmedQuery;
          lastWord = last words
      in case r1 of
           Rejected e \<Rightarrow> Returned (hideAutocomplete w)
         | Response ok status b \<Rightarrow>
             if \<not> ok then
               (if length lastWord \<ge> 2 \<and> lastWord \<noteq> trimmedQuery
                then Awaits (logRequest ''autocomplete'' lastWord w)
                else Returned (hideAutocomplete w))
             else
               (case b of
                  Malformed e \<Rightarrow> Returned (hideAutocomplete w)
                | Json None \<Rightarrow> Returned (hideAutocomplete w)
                | Json (Some suggestions) \<Rightarrow>
                    if length suggestions > 0 then
                      (let filtered = filter (relevant toLowerCase trimmedQuery) suggestions
                       in Returned
                            (showAutocomplete
                               (if length filtered > 0 then take 5 filtered
                                else take 5 suggestions) (trim query) w))
                    else Returned (hideAutocomplete w)))"

text \<open>The call ends when the \<open>fetch\<close> of the last word has settled with \<open>r2\<close>.\<close>

definition handleAutocomplete_fallback ::
  "jsstring \<Rightarrow> autocomplete_data fetch_result \<Rightarrow> widget \<Rightarrow> widget" where
  "handleAutocomplete_fallback query r2 w =
     (case r2 of
        Rejected e \<Rightarrow> hideAutocomplete w
      | Response fallbackOk fallbackStatus fallbackBody \<Rightarrow>
          if fallbackOk then
            (case fallbackBody of
               Malformed e \<Rightarrow> hideAutocomplete w
             | Json None \<Rightarrow> hideAutocomplete w
             | Json (Some suggestions) \<Rightarrow>
                 if length suggestions > 0
                 then showAutocomplete (take 5 suggestions) (trim query) w
                 else hideAutocomplete w)
          else hideAutocomplete w)"

text \<open>A whole resolution, with nothing else happening in between: \<open>r1\<close> is what the lookup
  of the whole query gives and \<open>r2\<close> what the lookup of the last word gives, if they are
  made.\<close>

definition handleAutocomplete_run ::
  "(jsstring \<Rightarrow> jsstring) \<Rightarrow> jsstring \<Rightarrow> autocomplete_data fetch_result \<Rightarrow>
   autocomplete_data fetch_result \<Rightarrow> widget \<Rightarrow> widget step" where
  "handleAutocomplete_run toLowerCase query r1 r2 w =
     (case handleAutocomplete toLowerCase query w of
        Raised e \<Rightarrow> Raised e
      | Returned w1 \<Rightarrow> Returned w1
      | Awaits w1 \<Rightarrow>
          (case handleAutocomplete_resume toLowerCase query r1 w1 of
             Raised e \<Rightarrow> Raised e
           | Returned w2 \<Rightarrow> Returned w2
           | Awaits w2 \<Rightarrow> Returned (handleAutocomplete_fallback query r2 w2)))"

text \<open>The call of \<open>handleAutocomplete\<close> gets as far as the lookup of the whole query: the
  trimmed query is not empty, the normalized query has two code units or more, and the
  keyword table gives no suggestion for it.\<close>

definition reachesRemote :: "(jsstring \<Rightarrow> jsstring) \<Rightarrow> jsstring \<Rightarrow> bool" where
  "reachesRemote toLowerCase query \<longleftrightarrow>
     1 \<le> length (trim query) \<and> 2 \<le> length (toLowerCase (trim query))
     \<and> (case localSuggestions toLowerCase (toLowerCase (trim query)) of
          Arr suggestions \<Rightarrow> suggestions = []
        | ObjectConstructor \<Rightarrow> False
        | ObjectPrototype \<Rightarrow> True)"

section \<open>Focus\<close>

text \<open>The \<open>focus\<close> listener of the input, run when the focus moves to the input. The call
  of \<open>handleAutocomplete\<close> runs up to its first \<open>await\<close> before the listener returns.\<close>

definition inputFocus :: "(jsstring \<Rightarrow> jsstring) \<Rightarrow> widget \<Rightarrow> widget" where
  "inputFocus toLowerCase w0 =
     (let w = w0\<lparr>inputFocused := True\<rparr>
      in if length (inputValue w) \<ge> 2
         then afterStep w (handleAutocomplete toLowerCase (inputValue w) w) else w)"

text \<open>\<open>input.focus()\<close>: nothing happens when the input has the focus; otherwise the focus
  moves and the listener runs before \<open>focus()\<close> returns.\<close>

definition focusInput :: "(jsstring \<Rightarrow> jsstring) \<Rightarrow> widget \<Rightarrow> widget" where
  "focusInput toLowerCase w = (if inputFocused w then w else inputFocus toLowerCase w)"

text \<open>The focus leaves the input (a press of the mouse button elsewhere).\<close>

definition inputBlur :: "widget \<Rightarrow> widget" where
  "inputBlur w = w\<lparr>inputFocused := False\<rparr>"

section \<open>Selecting and navigating\<close>

text \<open>The handler of the input's \<open>input\<close> event, reading the value the input holds.\<close>

definition inputHandler :: "widget \<Rightarrow> widget" where
  "inputHandler w =
     (let w1 = w\<lparr>autocompleteTimeout := False\<rparr>;
          w2 = w1\<lparr>suggestionsTimeout := False\<rparr>
      in if length (trim (inputValue w2)) \<ge> 1
         then (hideSuggestions w2)\<lparr>preventSuggestions := True, autocompleteTimeout := True\<rparr>
         else (hideAutocomplete w2)\<lparr>preventSuggestions := False, suggestionsTimeout := True\<rparr>)"

text \<open>\<open>setInputValue\<close> stores the value and dispatches an \<open>input\<close> event, whose handler
  runs before \<open>dispatchEvent\<close> returns.\<close>

definition setInputValue :: "jsstring \<Rightarrow> widget \<Rightarrow> widget" where
  "setInputValue v w = inputHandler (w\<lparr>inputValue := v\<rparr>)"

definition navigateAutocomplete :: "int \<Rightarrow> widget \<Rightarrow> widget" where
  "navigateAutocomplete direction w =
     (if length (autocompleteItems w) = 0 then w
      else
        (let i = currentAutocompleteIndex w + direction
         in if i < 0
            then w\<lparr>currentAutocompleteIndex := int (length (autocompleteItems w)) - 1\<rparr>
            else if i \<ge> int (length (autocompleteItems w))
            then w\<lparr>currentAutocompleteIndex := 0\<rparr>
            else w\<lparr>currentAutocompleteIndex := i\<rparr>))"

definition selectAutocompleteItem :: "(jsstring \<Rightarrow> jsstring) \<Rightarrow> int \<Rightarrow> widget \<Rightarrow> widget" where
  "selectAutocompleteItem toLowerCase index w =
     (if index \<ge> 0 \<and> index < int (length (autocompleteItems w))
      then focusInput toLowerCase
             (hideAutocomplete (setInputValue (autocompleteItems w ! nat index) w))
      else w)"

text \<open>The click listener of the document: it hides the dropdown unless the element
  clicked lies inside \<open>.chatbot-input-wrapper\<close>.\<close>

definition documentClick :: "bool \<Rightarrow> widget \<Rightarrow> widget" where
  "documentClick insideWrapper w = (if \<not> insideWrapper then hideAutocomplete w else w)"

text \<open>
  A click on the item with the given index. The listener of the item runs first, then
  the event goes up to the document, whose listener runs last. The item lies inside the
  wrapper as long as it is in the document: \<open>closest\<close> searches upwards from the item,
  and an item that a new rendering has removed has no wrapper above it.
\<close>

definition itemClick :: "(jsstring \<Rightarrow> jsstring) \<Rightarrow> int \<Rightarrow> widget \<Rightarrow> widget" where
  "itemClick toLowerCase index w =
     (let w1 = selectAutocompleteItem toLowerCase index w
      in documentClick (autocompleteRendering w1 = autocompleteRendering w) w1)"

text \<open>The click listener each chip gets in \<open>showSuggestions\<close>; it stops the event, so the
  listeners of the container and of the document do not see it.\<close>

definition chipClick :: "(jsstring \<Rightarrow> jsstring) \<Rightarrow> jsstring \<Rightarrow> widget \<Rightarrow> widget" where
  "chipClick toLowerCase suggestion w =
     (let w1 = (if suggestion \<in> set (usedSuggestions w) then w
                else w\<lparr>usedSuggestions := usedSuggestions w @ [suggestion]\<rparr>);
          w2 = setInputValue suggestion w1
      in hideSuggestions (focusInput toLowerCase w2))"

definition faqItemClick :: "(jsstring \<Rightarrow> jsstring) \<Rightarrow> jsstring \<Rightarrow> widget \<Rightarrow> widget" where
  "faqItemClick toLowerCase faq w =
     (focusInput toLowerCase (setInputValue faq w))\<lparr>settingsOpen := False\<rparr>"

definition toggleSuggestions :: "widget \<Rightarrow> widget" where
  "toggleSuggestions w = w\<lparr>suggestionsCollapsed := \<not> suggestionsCollapsed w\<rparr>"

section \<open>The session controller\<close>

text \<open>The bullet U+2022 and the two code units of the emoji U+1F44B.\<close>

definition bullet :: jsstring where
  "bullet = [(CHR 0x20, CHR 0x22)]"

definition wavingHand :: jsstring where
  "wavingHand = [(CHR 0xD8, CHR 0x3D), (CHR 0xDC, CHR 0x4B)]"

definition emptyQueryMessage :: jsstring where
  "emptyQueryMessage =
     str ''Please type a question before sending. You can also click on suggested questions below!''"

definition refusalMessage :: jsstring where
  "refusalMessage =
     str ''I'm sorry, I don't have access to personal information or individual details. ''
     @ str ''I can only help you with aggregated logistics data, such as:'' @ nl @ nl
     @ bullet @ str '' Total consignments, costs, and metrics'' @ nl
     @ bullet @ str '' Product information and shipping details'' @ nl
     @ bullet @ str '' Source and destination locations'' @ nl
     @ bullet @ str '' Transportation and utilization statistics'' @ nl @ nl
     @ str ''Please ask questions about your logistics data instead.''"

definition timeoutMessage :: jsstring where
  "timeoutMessage =
     str ''Request timed out. The server may be slow or unresponsive. Please try again.''"

definition connectivityMessage :: "jsstring \<Rightarrow> jsstring" where
  "connectivityMessage url =
     str ''Unable to connect to the API server at '' @ url @ str ''. Please check:'' @ nl @ nl
     @ str ''1. The server is running and accessible'' @ nl
     @ str ''2. The API URL is correct: '' @ url @ nl
     @ str ''3. There are no network or firewall issues'' @ nl
     @ str ''4. CORS is properly configured on the server''"

definition defaultGreeting :: jsstring where
  "defaultGreeting =
     wavingHand @ str '' Hello! I'm your Logistics Data Assistant. ''
     @ str ''I can help you analyze your Excel/CSV files and answer questions about your ''
     @ str ''logistics data. Please upload a file to begin.''"

definition defaultSuggestions :: "jsstring list" where
  "defaultSuggestions =
     take 3 (map str [''What are all the column names in this file?'',
                      ''How many consignments are there in total?'',
                      ''What is the total transportation cost?''])"

text \<open>
  The labels of \<open>personalInfoPatterns\<close>. Each pattern is the label followed by
  \<open>\s*[^\n]*\<close>, which also matches the empty string, with the flags \<open>g\<close> and \<open>i\<close>; the
  array is built anew on every call, so every \<open>test\<close> starts at index 0. A pattern
  therefore matches exactly when its label occurs in the answer, letter case ignored.
  Under the flag \<open>i\<close> a code unit of the answer matches a letter of the label exactly when
  it is that letter in either case: the language never lets a code unit from 128 on
  match one below 128. That is equality after \<open>asciiToLowerCase\<close>.
\<close>

definition personalInfoLabels :: "jsstring list" where
  "personalInfoLabels =
     map str
       [''Full Name'', ''Mobile Number'', ''Email Address'', ''Current Company'',
        ''Current Designation'', ''Current CTC'', ''Exp CTC'', ''Notice Period'',
        ''Work Experience'', ''Total Experience'']"

definition patternTest :: "jsstring \<Rightarrow> jsstring \<Rightarrow> bool" where
  "patternTest label answer \<longleftrightarrow>
     includesStr (asciiToLowerCase answer) (asciiToLowerCase label)"

definition hasPersonalInfo :: "jsstring \<Rightarrow> bool" where
  "hasPersonalInfo answer \<longleftrightarrow> list_ex (\<lambda>label. patternTest label answer) personalInfoLabels"

text \<open>The reduction of the server's suggestions in \<open>loadGreeting\<close> and
  \<open>sendMessageWithQuery\<close>.\<close>

definition limitedSuggestions :: "jsstring list \<Rightarrow> jsstring list \<Rightarrow> jsstring list" where
  "limitedSuggestions used suggestions =
     (let uniqueSuggestions = newSet suggestions;
          unusedSuggestions = filter (\<lambda>s. s \<notin> set used) uniqueSuggestions;
          limited = take 3 unusedSuggestions
      in if length limited < 3
         then (let usedButAvailable = filter (\<lambda>s. s \<in> set used) uniqueSuggestions
               in limited @ take (3 - length limited) usedButAvailable)
         else limited)"

definition digitChar :: "nat \<Rightarrow> char" where
  "digitChar n = ''0123456789'' ! n"

fun decimal :: "nat \<Rightarrow> string" where
  "decimal n = (if n < 10 then [digitChar n] else decimal (n div 10) @ [digitChar (n mod 10)])"

declare decimal.simps [simp del]

text \<open>\<open>sendMessageWithQuery\<close> up to its \<open>await fetch\<close>: the user message, both surfaces
  hidden, the input cleared, the loading placeholder, the request. The id of the
  placeholder is kept for the rest of the function.\<close>

definition sendMessageWithQuery :: "(jsstring \<Rightarrow> jsstring) \<Rightarrow> jsstring \<Rightarrow> widget \<Rightarrow> widget" where
  "sendMessageWithQuery toLowerCase query w =
     (let w1 = addMessage User query w;
          w2 = w1\<lparr>preventSuggestions := True\<rparr>;
          w3 = hideSuggestions (hideAutocomplete w2);
          w4 = focusInput toLowerCase (w3\<lparr>inputValue := []\<rparr>);
          w5 = w4\<lparr>timeouts := timeouts w4 @ [AfterSend]\<rparr>;
          (loadingId, w6) = addLoadingMessage w5;
          w7 = logRequest ''query'' query w6
      in w7\<lparr>pendingQueries := pendingQueries w7 @ [loadingId]\<rparr>)"

text \<open>The \<open>catch\<close> block of \<open>sendMessageWithQuery\<close>.\<close>

definition errorMessageFor :: "jsstring \<Rightarrow> js_error \<Rightarrow> jsstring" where
  "errorMessageFor url error =
     (if includesStr (errMessage error) (str ''Failed to fetch'')
         \<or> includesStr (errMessage error) (str ''NetworkError'')
         \<or> errName error = str ''TypeError''
      then connectivityMessage url
      else if includesStr (errMessage error) (str ''timeout'')
              \<or> errName error = str ''TimeoutError''
      then timeoutMessage
      else errMessage error)"

definition queryFailed :: "nat \<Rightarrow> js_error \<Rightarrow> widget \<Rightarrow> widget" where
  "queryFailed loadingId error w =
     (let w1 = removeMessage loadingId w
      in addMessage Assistant
           (str ''Sorry, I encountered an error: '' @ errorMessageFor (apiUrl w1) error) w1)"

text \<open>The rest of \<open>sendMessageWithQuery\<close>, once the \<open>fetch\<close> has settled with \<open>r\<close>.\<close>

definition sendMessageWithQuery_resume ::
  "nat \<Rightarrow> query_data fetch_result \<Rightarrow> widget \<Rightarrow> widget" where
  "sendMessageWithQuery_resume loadingId r w0 =
     (let w = w0\<lparr>pendingQueries := remove1 loadingId (pendingQueries w0)\<rparr>
      in case r of
           Rejected error \<Rightarrow> queryFailed loadingId error w
         | Response ok status b \<Rightarrow>
             if \<not> ok then
               (let errorMessage =
                      (case b of
                         Malformed e \<Rightarrow> str ''HTTP error! status: '' @ str (decimal status)
                       | Json errorData \<Rightarrow>
                           if q_error errorData \<noteq> [] then q_error errorData
                           else if q_answer errorData \<noteq> [] then q_answer errorData
                           else str ''HTTP error! status: '' @ str (decimal status))
                in queryFailed loadingId
                     \<lparr>errName = str ''Error'', errMessage = errorMessage\<rparr> w)
             else
               (case b of
                  Malformed e \<Rightarrow> queryFailed loadingId e w
                | Json data \<Rightarrow>
                    (let w1 = removeMessage loadingId w
                     in if q_error data \<noteq> []
                        then addMessage Assistant
                               (str ''Error: '' @ (if q_answer data \<noteq> [] then q_answer data
                                                   else q_error data)) w1
                        else
                          (let answer = (if q_answer data \<noteq> [] then q_answer data
                                         else str ''No answer provided'');
                               shown = (if hasPersonalInfo answer then refusalMessage
                                        else answer);
                               w2 = addMessage Assistant shown w1
                           in if length (q_suggestions data) > 0
                              then (let limited = limitedSuggestions (usedSuggestions w2)
                                                    (q_suggestions data)
                                    in if length limited > 0
                                       then w2\<lparr>timeouts := timeouts w2
                                                 @ [ShowFollowUp limited
                                                      (q_follow_up_message data)]\<rparr>
                                       else w2)
                              else w2))))"

text \<open>\<open>sendMessage\<close>, with the input element in place.\<close>

definition sendMessage :: "(jsstring \<Rightarrow> jsstring) \<Rightarrow> widget \<Rightarrow> widget" where
  "sendMessage toLowerCase w =
     (let query = trim (inputValue w)
      in if query = []
         then addMessage Assistant emptyQueryMessage (focusInput toLowerCase w)
         else sendMessageWithQuery toLowerCase query w)"

section \<open>Startup\<close>

definition greetingFailed :: "widget \<Rightarrow> widget" where
  "greetingFailed w = showSuggestions defaultSuggestions None (addMessage Assistant defaultGreeting w)"

text \<open>\<open>loadGreeting\<close>, with the messages container in place; \<open>r\<close> is what the \<open>fetch\<close> of
  the greeting gives.\<close>

definition loadGreeting :: "greet_data fetch_result \<Rightarrow> widget \<Rightarrow> widget" where
  "loadGreeting r w0 =
     (let w = logRequest ''greet'' [] w0
      in case r of
           Rejected error \<Rightarrow> greetingFailed w
         | Response ok status b \<Rightarrow>
             if \<not> ok then greetingFailed w
             else
               (case b of
                  Malformed e \<Rightarrow> greetingFailed w
                | Json data \<Rightarrow>
                    (let w1 = (if g_message data \<noteq> []
                               then addMessage Assistant (g_message data) w else w)
                     in if g_has_data data \<and> length (g_suggestions data) > 0
                        then (let limited = limitedSuggestions (usedSuggestions w1)
                                              (g_suggestions data);
                                  w2 = hideSuggestions w1
                              in if \<not> suggestionsShown w2 \<and> length limited > 0
                                 then w2\<lparr>timeouts := timeouts w2 @ [ShowGreeting limited]\<rparr>
                                 else w2)
                        else hideSuggestions w1)))"

section \<open>Events\<close>

datatype key = Enter bool | ArrowDown | ArrowUp | Tab | Escape | OtherKey

text \<open>The \<open>keydown\<close> listener of the input; the flag of \<open>Enter\<close> is \<open>shiftKey\<close>.\<close>

definition keydown :: "(jsstring \<Rightarrow> jsstring) \<Rightarrow> key \<Rightarrow> widget \<Rightarrow> widget" where
  "keydown toLowerCase k w =
     (case k of
        Enter shiftKey \<Rightarrow>
          if \<not> shiftKey then
            (if currentAutocompleteIndex w \<ge> 0 \<and> length (autocompleteItems w) > 0
             then selectAutocompleteItem toLowerCase (currentAutocompleteIndex w) w
             else if trim (inputValue w) \<noteq> [] then sendMessage toLowerCase w else w)
          else w
      | ArrowDown \<Rightarrow> if length (autocompleteItems w) > 0 then navigateAutocomplete 1 w else w
      | ArrowUp \<Rightarrow> if length (autocompleteItems w) > 0 then navigateAutocomplete (-1) w else w
      | Tab \<Rightarrow>
          if length (autocompleteItems w) > 0 then
            (if currentAutocompleteIndex w \<ge> 0
             then selectAutocompleteItem toLowerCase (currentAutocompleteIndex w) w
             else selectAutocompleteItem toLowerCase 0 w)
          else w
      | Escape \<Rightarrow> hideAutocomplete w
      | OtherKey \<Rightarrow> w)"

text \<open>The user changes the text of the input to \<open>v\<close>.\<close>

definition typeText :: "jsstring \<Rightarrow> widget \<Rightarrow> widget" where
  "typeText v w = inputHandler (w\<lparr>inputValue := v\<rparr>)"

text \<open>The callback of \<open>autocompleteTimeout\<close>, 150 ms after a keystroke.\<close>

definition autocompleteTimeoutFired :: "(jsstring \<Rightarrow> jsstring) \<Rightarrow> widget \<Rightarrow> widget" where
  "autocompleteTimeoutFired toLowerCase w0 =
     (let w = w0\<lparr>autocompleteTimeout := False\<rparr>
      in if length (trim (inputValue w)) \<ge> 1
         then (let w1 = hideSuggestions w
               in afterStep w1 (handleAutocomplete toLowerCase (inputValue w1) w1))
         else w)"

text \<open>The callback of \<open>suggestionsTimeout\<close>, 200 ms after the input was cleared.\<close>

definition suggestionsTimeoutFired :: "widget \<Rightarrow> widget" where
  "suggestionsTimeoutFired w0 =
     (let w = w0\<lparr>suggestionsTimeout := False\<rparr>
      in if length (trim (inputValue w)) = 0
         then (if \<not> preventSuggestions w
               then showSuggestionsIfAvailable (hideAutocomplete w) else w)
         else w)"

text \<open>The callbacks whose handle is not kept.\<close>

fun runTimeout :: "timeout \<Rightarrow> widget \<Rightarrow> widget" where
  "runTimeout AllowSuggestions w = w\<lparr>preventSuggestions := False\<rparr>"
| "runTimeout AfterSend w =
     (let w1 = w\<lparr>preventSuggestions := False\<rparr>
      in if length (trim (inputValue w1)) = 0
         then showSuggestionsIfAvailable (hideAutocomplete w1) else w1)"
| "runTimeout (ShowFollowUp limited title) w =
     (if length (trim (inputValue w)) = 0
      then showSuggestions limited title (hideAutocomplete w) else w)"
| "runTimeout (ShowGreeting limited) w = showSuggestions limited None w"

text \<open>
  The states the widget can be in, for a given \<open>toLowerCase\<close> of the engine: the initial
  one, and every state that an operation of the coordinator, a listener, a timer or a
  settled request leaves. A lookup may settle at any later moment, with any result.
\<close>

inductive reachable :: "(jsstring \<Rightarrow> jsstring) \<Rightarrow> widget \<Rightarrow> bool"
  for toLowerCase :: "jsstring \<Rightarrow> jsstring" where
  r_initial: "reachable toLowerCase (initial url)"
| r_showAutocomplete:
    "reachable toLowerCase w \<Longrightarrow> reachable toLowerCase (showAutocomplete suggestions query w)"
| r_hideAutocomplete: "reachable toLowerCase w \<Longrightarrow> reachable toLowerCase (hideAutocomplete w)"
| r_showSuggestions:
    "reachable toLowerCase w \<Longrightarrow> reachable toLowerCase (showSuggestions suggestions title w)"
| r_hideSuggestions: "reachable toLowerCase w \<Longrightarrow> reachable toLowerCase (hideSuggestions w)"
| r_showSuggestionsIfAvailable:
    "reachable toLowerCase w \<Longrightarrow> reachable toLowerCase (showSuggestionsIfAvailable w)"
| r_toggleSuggestions: "reachable toLowerCase w \<Longrightarrow> reachable toLowerCase (toggleSuggestions w)"
| r_navigateAutocomplete:
    "reachable toLowerCase w \<Longrightarrow> reachable toLowerCase (navigateAutocomplete direction w)"
| r_selectAutocompleteItem:
    "reachable toLowerCase w \<Longrightarrow>
     reachable toLowerCase (selectAutocompleteItem toLowerCase index w)"
| r_itemClick:
    "reachable toLowerCase w \<Longrightarrow> reachable toLowerCase (itemClick toLowerCase index w)"
| r_documentClick:
    "reachable toLowerCase w \<Longrightarrow> reachable toLowerCase (documentClick insideWrapper w)"
| r_handleAutocomplete:
    "reachable toLowerCase w \<Longrightarrow>
     reachable toLowerCase (afterStep w (handleAutocomplete toLowerCase query w))"
| r_handleAutocomplete_resume:
    "reachable toLowerCase w \<Longrightarrow>
     reachable toLowerCase (afterStep w (handleAutocomplete_resume toLowerCase query r1 w))"
| r_handleAutocomplete_fallback:
    "reachable toLowerCase w \<Longrightarrow>
     reachable toLowerCase (handleAutocomplete_fallback query r2 w)"
| r_typeText: "reachable toLowerCase w \<Longrightarrow> reachable toLowerCase (typeText v w)"
| r_keydown: "reachable toLowerCase w \<Longrightarrow> reachable toLowerCase (keydown toLowerCase k w)"
| r_inputFocus: "reachable toLowerCase w \<Longrightarrow> reachable toLowerCase (focusInput toLowerCase w)"
| r_inputBlur: "reachable toLowerCase w \<Longrightarrow> reachable toLowerCase (inputBlur w)"
| r_chipClick:
    "reachable toLowerCase w \<Longrightarrow> suggestion \<in> set (chipsEl w) \<Longrightarrow>
     reachable toLowerCase (chipClick toLowerCase suggestion w)"
| r_faqItemClick:
    "reachable toLowerCase w \<Longrightarrow> reachable toLowerCase (faqItemClick toLowerCase faq w)"
| r_sendMessage: "reachable toLowerCase w \<Longrightarrow> reachable toLowerCase (sendMessage toLowerCase w)"
| r_resume:
    "reachable toLowerCase w \<Longrightarrow> loadingId \<in> set (pendingQueries w) \<Longrightarrow>
     reachable toLowerCase (sendMessageWithQuery_resume loadingId r w)"
| r_loadGreeting: "reachable toLowerCase w \<Longrightarrow> reachable toLowerCase (loadGreeting g w)"
| r_autocompleteTimeout:
    "reachable toLowerCase w \<Longrightarrow> autocompleteTimeout w \<Longrightarrow>
     reachable toLowerCase (autocompleteTimeoutFired toLowerCase w)"
| r_suggestionsTimeout:
    "reachable toLowerCase w \<Longrightarrow> suggestionsTimeout w \<Longrightarrow>
     reachable toLowerCase (suggestionsTimeoutFired w)"
| r_timeout:
    "reachable toLowerCase w \<Longrightarrow> t \<in> set (timeouts w) \<Longrightarrow>
     reachable toLowerCase (runTimeout t (w\<lparr>timeouts := remove1 t (timeouts w)\<rparr>))"

text \<open>The second state has the input, its focus, the used suggestions, the messages and
  the queries in flight of the first.\<close>

definition sameSession :: "widget \<Rightarrow> widget \<Rightarrow> bool" where
  "sameSession w w' \<longleftrightarrow>
     inputValue w' = inputValue w \<and> inputFocused w' = inputFocused w
     \<and> usedSuggestions w' = usedSuggestions w \<and> messagesEl w' = messagesEl w
     \<and> messages w' = messages w \<and> pendingQueries w' = pendingQueries w
     \<and> nextId w' = nextId w \<and> apiUrl w' = apiUrl w"

text \<open>The requests for an answer among the requests logged.\<close>

definition queryRequests :: "widget \<Rightarrow> (string \<times> jsstring) list" where
  "queryRequests w = filter (\<lambda>r. fst r = ''query'') (requests w)"

text \<open>What the selection of an item with the text \<open>item\<close> makes of the state \<open>w\<close>: the
  text is in the input, the dropdown is hidden and its timer cancelled, the focus is on
  the input, and the used suggestions, the messages, the queries in flight and the
  requests for an answer are as they were.\<close>

definition selection :: "widget \<Rightarrow> jsstring \<Rightarrow> widget \<Rightarrow> bool" where
  "selection w item w' \<longleftrightarrow>
     inputValue w' = item \<and> \<not> autocompleteVisible w' \<and> \<not> autocompleteTimeout w'
     \<and> inputFocused w' \<and> usedSuggestions w' = usedSuggestions w
     \<and> messagesEl w' = messagesEl w \<and> messages w' = messages w
     \<and> pendingQueries w' = pendingQueries w \<and> queryRequests w' = queryRequests w"

section \<open>Concrete runs\<close>

text \<open>States and inputs at which the theorems below are exercised.\<close>

definition fetchFailed :: js_error where
  "fetchFailed = \<lparr>errName = str ''TypeError'', errMessage = str ''Failed to fetch''\<rparr>"

definition started :: widget where
  "started = loadGreeting (Rejected fetchFailed) (initial (str ''http://localhost:5000/api''))"

definition typedWhat :: widget where
  "typedWhat = typeText (str ''what'') (focusInput asciiToLowerCase started)"

definition settledWhat :: widget where
  "settledWhat = autocompleteTimeoutFired asciiToLowerCase typedWhat"

definition pressedOnItem :: widget where
  "pressedOnItem = inputBlur settledWhat"

definition threeUsed :: widget where
  "threeUsed =
     (initial (str ''http://localhost:5000/api''))\<lparr>usedSuggestions := take 3 allSuggestions\<rparr>"

definition typedTotalCost :: widget where
  "typedTotalCost = typeText (str ''total cost of route 7'') started"

definition sentTotalCost :: widget where
  "sentTotalCost = sendMessage asciiToLowerCase typedTotalCost"

definition chromeAbort :: js_error where
  "chromeAbort = abortError (str ''signal is aborted without reason'')"

definition personalAnswer :: query_data where
  "personalAnswer =
     \<lparr>q_answer = str ''Full Name: Asha Rao'' @ nl @ str ''Email Address: asha@example.com'',
      q_error = [], q_suggestions = [], q_follow_up_message = None\<rparr>"

definition plainAnswer :: query_data where
  "plainAnswer =
     \<lparr>q_answer = str ''There are 42 consignments in total.'',
      q_error = [], q_suggestions = [], q_follow_up_message = None\<rparr>"

text \<open>An input of three spaces, and an input of one no-break space.\<close>

definition typedSpaces :: widget where
  "typedSpaces = typeText (str ''   '') started"

definition typedNoBreakSpace :: widget where
  "typedNoBreakSpace = typeText [(CHR 0x00, CHR 0xA0)] started"

definition serverError :: "autocomplete_data fetch_result" where
  "serverError =
     Response False 500 (Malformed \<lparr>errName = str ''SyntaxError'', errMessage = []\<rparr>)"

definition noSuggestions :: "autocomplete_data fetch_result" where
  "noSuggestions = Response True 200 (Json (Some []))"

definition carriers :: "jsstring list" where
  "carriers = map str [''Alpha route'', ''Top ten ZZ carriers'', ''Stopover list'']"

text \<open>The query \<open>zz\<close>, a space and the letter e with acute accent, U+00E9: its last word
  is one code unit long.\<close>

definition zzAccent :: jsstring where
  "zzAccent = str ''zz '' @ [(CHR 0x00, CHR 0xE9)]"


section \<open>Embedded texts\<close>

lemma str_eq_iff [simp]: "str a = str b \<longleftrightarrow> a = b"
  by (simp add: str_def inj_on_def inj_map_eq_map)

lemma inj_on_str [simp]: "inj_on str A"
  by (simp add: inj_on_def)

lemma str_Nil [simp]: "str [] = []" "str s = [] \<longleftrightarrow> s = []"
  by (simp_all add: str_def)

lemma length_str [simp]: "length (str s) = length s"
  by (simp add: str_def)

section \<open>Deduplication and the selection policy\<close>

lemma remdups_snoc: "remdups (ys @ [x]) = remdups (filter (\<lambda>y. y \<noteq> x) ys) @ [x]"
  by (induction ys) auto

lemma firstSeen_Cons: "firstSeen (x # xs) = x # firstSeen (filter (\<lambda>y. y \<noteq> x) xs)"
  by (simp add: firstSeen_def rev_filter remdups_snoc)

lemma firstSeen_Nil: "firstSeen [] = []"
  by (simp add: firstSeen_def)

lemma firstSeen_filter:
  "firstSeen (filter P xs) = filter P (firstSeen xs)"
  by (simp add: firstSeen_def rev_filter remdups_filter)

lemma newSetFrom_firstSeen:
  "newSetFrom seen xs = firstSeen (filter (\<lambda>y. y \<notin> set seen) xs)"
proof (induction xs arbitrary: seen)
  case Nil
  show ?case by (simp add: firstSeen_Nil)
next
  case (Cons x xs)
  show ?case
  proof (cases "x \<in> set seen")
    case True
    then show ?thesis by (simp add: Cons.IH)
  next
    case False
    have "filter (\<lambda>y. y \<notin> set (seen @ [x])) xs
          = filter (\<lambda>y. y \<noteq> x) (filter (\<lambda>y. y \<notin> set seen) xs)"
      by (induction xs) auto
    with False show ?thesis
      by (simp add: Cons.IH firstSeen_Cons)
  qed
qed

lemma newSet_firstSeen: "newSet xs = firstSeen xs"
  by (simp add: newSet_def newSetFrom_firstSeen)

lemma distinct_firstSeen: "distinct (firstSeen xs)"
  by (simp add: firstSeen_def)

lemma set_firstSeen: "set (firstSeen xs) = set xs"
  by (simp add: firstSeen_def)

lemma firstSeen_distinct: "distinct xs \<Longrightarrow> firstSeen xs = xs"
  by (simp add: firstSeen_def distinct_remdups_id)

lemma length_firstSeen: "length (firstSeen xs) = card (set xs)"
  by (metis distinct_card distinct_firstSeen set_firstSeen)

lemma finalSuggestions_policySpec:
  "finalSuggestions used suggestions = policySpec used suggestions"
proof -
  let ?u = "firstSeen suggestions"
  let ?a = "filter (\<lambda>s. s \<notin> set used) ?u"
  let ?b = "filter (\<lambda>s. s \<in> set used) ?u"
  have len: "length ?u = length ?a + length ?b"
    using sum_length_filter_compl [of "\<lambda>s. s \<in> set used" ?u] by simp
  show ?thesis
  proof (cases "length ?a < 3")
    case True
    then have t: "take 3 ?a = ?a" by simp
    show ?thesis
    proof (cases "length ?b = 0")
      case True
      with len t show ?thesis
        by (simp add: finalSuggestions_def policySpec_def newSet_firstSeen Let_def)
    next
      case False
      with len t \<open>length ?a < 3\<close> show ?thesis
        by (simp add: finalSuggestions_def policySpec_def newSet_firstSeen Let_def)
    qed
  next
    case False
    then show ?thesis
      by (simp add: finalSuggestions_def policySpec_def newSet_firstSeen Let_def)
  qed
qed

lemma length_policySpec: "length (policySpec used cs) = min 3 (card (set cs))"
proof -
  have "length (filter (\<lambda>s. s \<notin> set used) (firstSeen cs))
        + length (filter (\<lambda>s. s \<in> set used) (firstSeen cs)) = length (firstSeen cs)"
    using sum_length_filter_compl [of "\<lambda>s. s \<in> set used" "firstSeen cs"] by simp
  then show ?thesis
    by (simp add: policySpec_def length_firstSeen min.commute)
qed

lemma distinct_policySpec: "distinct (policySpec used cs)"
proof -
  have "distinct (filter (\<lambda>s. s \<notin> set used) (firstSeen cs)
                  @ filter (\<lambda>s. s \<in> set used) (firstSeen cs))"
    using distinct_firstSeen [of cs] by auto
  then show ?thesis
    unfolding policySpec_def by (rule distinct_take)
qed

lemma chipsEl_showSuggestions:
  "chipsEl (showSuggestions cs title w) =
     (if cs = [] then [] else finalSuggestions (usedSuggestions w) cs)"
  by (simp add: showSuggestions_def hideAutocomplete_def Let_def split: option.split)

lemma suggestionsDisplay_showSuggestions:
  "suggestionsDisplay (showSuggestions cs title w) \<longleftrightarrow> cs \<noteq> []"
  by (simp add: showSuggestions_def hideAutocomplete_def Let_def split: option.split)

section \<open>Mutual exclusion of the two surfaces\<close>

lemma display_hideSuggestions [simp]:
  "suggestionsDisplay (hideSuggestions w) = False"
  "autocompleteDisplay (hideSuggestions w) = autocompleteDisplay w"
  "suggestionsTimeout (hideSuggestions w) = False"
  by (simp_all add: hideSuggestions_def)

lemma display_hideAutocomplete [simp]:
  "autocompleteDisplay (hideAutocomplete w) = False"
  "suggestionsDisplay (hideAutocomplete w) = suggestionsDisplay w"
  "autocompleteTimeout (hideAutocomplete w) = False"
  by (simp_all add: hideAutocomplete_def Let_def)

lemma display_showAutocomplete [simp]:
  "autocompleteDisplay (showAutocomplete s q w) = True"
  "suggestionsDisplay (showAutocomplete s q w) = False"
  "suggestionsTimeout (showAutocomplete s q w) = False"
  by (simp_all add: showAutocomplete_def hideSuggestions_def Let_def)

lemma display_showSuggestions [simp]:
  "autocompleteDisplay (showSuggestions cs title w) = False"
  "autocompleteTimeout (showSuggestions cs title w) = False"
  by (simp_all add: showSuggestions_def hideAutocomplete_def Let_def split: option.split)

lemma display_addMessage [simp]:
  "autocompleteDisplay (addMessage r c w) = autocompleteDisplay w"
  "suggestionsDisplay (addMessage r c w) = suggestionsDisplay w"
  by (simp_all add: addMessage_def)

lemma display_removeMessage [simp]:
  "autocompleteDisplay (removeMessage i w) = autocompleteDisplay w"
  "suggestionsDisplay (removeMessage i w) = suggestionsDisplay w"
  by (simp_all add: removeMessage_def)

lemma display_logRequest [simp]:
  "autocompleteDisplay (logRequest a b w) = autocompleteDisplay w"
  "suggestionsDisplay (logRequest a b w) = suggestionsDisplay w"
  by (simp_all add: logRequest_def)

lemma exclusive_iff: "exclusive w \<longleftrightarrow> \<not> (autocompleteDisplay w \<and> suggestionsDisplay w)"
  by (simp add: exclusive_def autocompleteVisible_def suggestionsVisible_def)

lemma exclusive_hideSuggestions: "exclusive (hideSuggestions w)"
  by (simp add: exclusive_iff)

lemma exclusive_hideAutocomplete: "exclusive (hideAutocomplete w)"
  by (simp add: exclusive_iff)

lemma exclusive_showAutocomplete: "exclusive (showAutocomplete s q w)"
  by (simp add: exclusive_iff)

lemma exclusive_showSuggestions: "exclusive (showSuggestions cs title w)"
  by (simp add: exclusive_iff)

lemma exclusive_logRequest: "exclusive w \<Longrightarrow> exclusive (logRequest a b w)"
  by (simp add: exclusive_iff)

lemma exclusive_showSuggestionsIfAvailable:
  "exclusive w \<Longrightarrow> exclusive (showSuggestionsIfAvailable w)"
  by (simp add: showSuggestionsIfAvailable_def Let_def exclusive_showSuggestions)

lemma exclusive_handleAutocomplete:
  "exclusive w \<Longrightarrow> exclusive (afterStep w (handleAutocomplete lc q w))"
  by (simp add: handleAutocomplete_def afterStep_def Let_def exclusive_hideAutocomplete
      exclusive_showAutocomplete exclusive_logRequest split: js_value.split)

lemma exclusive_handleAutocomplete_resume:
  "exclusive w \<Longrightarrow> exclusive (afterStep w (handleAutocomplete_resume lc q r1 w))"
  by (simp add: handleAutocomplete_resume_def afterStep_def Let_def exclusive_hideAutocomplete
      exclusive_showAutocomplete exclusive_logRequest
      split: fetch_result.split body.split option.split)

lemma exclusive_handleAutocomplete_fallback:
  "exclusive (handleAutocomplete_fallback q r2 w)"
  by (simp add: handleAutocomplete_fallback_def exclusive_hideAutocomplete
      exclusive_showAutocomplete split: fetch_result.split body.split option.split)

lemma exclusive_inputHandler: "exclusive (inputHandler w)"
  by (simp add: inputHandler_def Let_def exclusive_iff)

lemma exclusive_focusInput: "exclusive w \<Longrightarrow> exclusive (focusInput lc w)"
proof -
  assume e: "exclusive w"
  have "exclusive (w\<lparr>inputFocused := True\<rparr>)"
    using e by (simp add: exclusive_iff)
  then show ?thesis
    using e by (simp add: focusInput_def inputFocus_def Let_def exclusive_handleAutocomplete)
qed

lemma exclusive_selectAutocompleteItem:
  "exclusive w \<Longrightarrow> exclusive (selectAutocompleteItem lc i w)"
  by (simp add: selectAutocompleteItem_def exclusive_focusInput exclusive_hideAutocomplete)

lemma exclusive_documentClick: "exclusive w \<Longrightarrow> exclusive (documentClick inside w)"
  by (simp add: documentClick_def exclusive_hideAutocomplete)

lemma exclusive_itemClick: "exclusive w \<Longrightarrow> exclusive (itemClick lc i w)"
  by (simp add: itemClick_def Let_def exclusive_documentClick exclusive_selectAutocompleteItem)

lemma exclusive_navigateAutocomplete:
  "exclusive w \<Longrightarrow> exclusive (navigateAutocomplete d w)"
  by (simp add: navigateAutocomplete_def Let_def exclusive_iff)

lemma exclusive_sendMessageWithQuery: "exclusive (sendMessageWithQuery lc q w)"
proof -
  let ?w3 = "hideSuggestions (hideAutocomplete ((addMessage User q w)\<lparr>preventSuggestions := True\<rparr>))"
  have "exclusive (?w3\<lparr>inputValue := []\<rparr>)"
    by (simp add: exclusive_iff)
  then have "exclusive (focusInput lc (?w3\<lparr>inputValue := []\<rparr>))"
    by (rule exclusive_focusInput)
  then show ?thesis
    by (simp add: sendMessageWithQuery_def Let_def addLoadingMessage_def exclusive_iff)
qed

lemma exclusive_sendMessage: "exclusive w \<Longrightarrow> exclusive (sendMessage lc w)"
proof -
  assume "exclusive w"
  then have "exclusive (focusInput lc w)"
    by (rule exclusive_focusInput)
  then have "exclusive (addMessage Assistant emptyQueryMessage (focusInput lc w))"
    by (simp add: exclusive_iff)
  then show ?thesis
    by (simp add: sendMessage_def Let_def exclusive_sendMessageWithQuery)
qed

lemma exclusive_keydown: "exclusive w \<Longrightarrow> exclusive (keydown lc k w)"
  by (cases k)
     (simp_all add: keydown_def exclusive_selectAutocompleteItem exclusive_sendMessage
        exclusive_navigateAutocomplete exclusive_hideAutocomplete)

lemma exclusive_chipClick: "exclusive (chipClick lc s w)"
  by (simp add: chipClick_def Let_def exclusive_hideSuggestions)

lemma exclusive_faqItemClick: "exclusive (faqItemClick lc f w)"
proof -
  have "exclusive (focusInput lc (setInputValue f w))"
    by (simp add: setInputValue_def exclusive_focusInput exclusive_inputHandler)
  then show ?thesis
    by (simp add: faqItemClick_def exclusive_iff)
qed

lemma exclusive_queryFailed: "exclusive w \<Longrightarrow> exclusive (queryFailed i e w)"
  by (simp add: queryFailed_def Let_def exclusive_iff)

lemma exclusive_resume:
  "exclusive w \<Longrightarrow> exclusive (sendMessageWithQuery_resume i r w)"
proof -
  assume "exclusive w"
  then have "exclusive (w\<lparr>pendingQueries := remove1 i (pendingQueries w)\<rparr>)"
    by (simp add: exclusive_iff)
  then show ?thesis
    by (simp add: sendMessageWithQuery_resume_def Let_def exclusive_queryFailed
        split: fetch_result.split body.split)
       (simp add: exclusive_iff)
qed

lemma exclusive_loadGreeting: "exclusive w \<Longrightarrow> exclusive (loadGreeting g w)"
  by (simp add: loadGreeting_def greetingFailed_def Let_def exclusive_showSuggestions
      split: fetch_result.split body.split)
     (simp add: exclusive_iff)

lemma exclusive_autocompleteTimeoutFired:
  "exclusive w \<Longrightarrow> exclusive (autocompleteTimeoutFired lc w)"
proof -
  assume e: "exclusive w"
  then have e': "exclusive (w\<lparr>autocompleteTimeout := False\<rparr>)"
    by (simp add: exclusive_iff)
  show ?thesis
    using e' by (simp add: autocompleteTimeoutFired_def Let_def exclusive_handleAutocomplete
        exclusive_hideSuggestions)
qed

lemma exclusive_suggestionsTimeoutFired:
  "exclusive w \<Longrightarrow> exclusive (suggestionsTimeoutFired w)"
proof -
  assume e: "exclusive w"
  then have e': "exclusive (w\<lparr>suggestionsTimeout := False\<rparr>)"
    by (simp add: exclusive_iff)
  show ?thesis
    using e' by (simp add: suggestionsTimeoutFired_def Let_def
        exclusive_showSuggestionsIfAvailable exclusive_hideAutocomplete)
qed

lemma exclusive_runTimeout: "exclusive w \<Longrightarrow> exclusive (runTimeout t w)"
proof (cases t)
  case AllowSuggestions
  assume "exclusive w"
  then show ?thesis using AllowSuggestions by (simp add: exclusive_iff)
next
  case AfterSend
  assume "exclusive w"
  then have "exclusive (w\<lparr>preventSuggestions := False\<rparr>)"
    by (simp add: exclusive_iff)
  then show ?thesis
    using AfterSend
    by (simp add: Let_def exclusive_showSuggestionsIfAvailable exclusive_hideAutocomplete)
next
  case (ShowFollowUp limited title)
  assume "exclusive w"
  then show ?thesis
    using ShowFollowUp by (simp add: exclusive_showSuggestions)
next
  case (ShowGreeting limited)
  then show ?thesis by (simp add: exclusive_showSuggestions)
qed

lemma exclusive_reachable: "reachable lc w \<Longrightarrow> exclusive w"
proof (induction rule: reachable.induct)
  case (r_initial url)
  show ?case by (simp add: exclusive_iff initial_def)
next
  case (r_toggleSuggestions w)
  then show ?case by (simp add: exclusive_iff toggleSuggestions_def)
next
  case (r_typeText w v)
  show ?case by (simp add: typeText_def exclusive_inputHandler)
next
  case (r_inputBlur w)
  then show ?case by (simp add: exclusive_iff inputBlur_def)
next
  case (r_timeout w t)
  then have "exclusive (w\<lparr>timeouts := remove1 t (timeouts w)\<rparr>)"
    by (simp add: exclusive_iff)
  then show ?case by (rule exclusive_runTimeout)
qed (simp_all add: exclusive_showAutocomplete exclusive_hideAutocomplete
      exclusive_showSuggestions exclusive_hideSuggestions exclusive_showSuggestionsIfAvailable
      exclusive_navigateAutocomplete exclusive_selectAutocompleteItem exclusive_itemClick
      exclusive_documentClick exclusive_handleAutocomplete exclusive_handleAutocomplete_resume
      exclusive_handleAutocomplete_fallback exclusive_keydown exclusive_focusInput
      exclusive_chipClick exclusive_faqItemClick exclusive_sendMessage exclusive_resume
      exclusive_loadGreeting exclusive_autocompleteTimeoutFired
      exclusive_suggestionsTimeoutFired)

text \<open>
  Claim C1. In every reachable state at most one of the autocomplete dropdown and the
  suggestion chips is displayed. In particular, from any state, \<open>showAutocomplete\<close> leaves
  the chips hidden and their timer cancelled while the dropdown shows the items, and
  \<open>showSuggestions\<close> leaves the dropdown hidden and its timer cancelled.
\<close>

theorem C1_surfaces_exclusive:
  "reachable toLowerCase w \<Longrightarrow>
     \<not> (autocompleteVisible w \<and> suggestionsVisible w)
     \<and> \<not> suggestionsVisible (showAutocomplete items query w)
     \<and> \<not> suggestionsTimeout (showAutocomplete items query w)
     \<and> chipsEl (showAutocomplete items query w) = []
     \<and> autocompleteVisible (showAutocomplete items query w)
     \<and> autocompleteItems (showAutocomplete items query w) = items
     \<and> \<not> autocompleteVisible (showSuggestions candidates title w)
     \<and> \<not> autocompleteTimeout (showSuggestions candidates title w)"
proof -
  assume "reachable toLowerCase w"
  then have "exclusive w" by (rule exclusive_reachable)
  then have a: "\<not> (autocompleteVisible w \<and> suggestionsVisible w)"
    by (simp add: exclusive_def)
  have b: "chipsEl (showAutocomplete items query w) = []"
       "autocompleteItems (showAutocomplete items query w) = items"
    by (simp_all add: showAutocomplete_def hideSuggestions_def Let_def)
  from a b show ?thesis
    by (simp add: autocompleteVisible_def suggestionsVisible_def)
qed

lemma typedWhat_armed: "autocompleteTimeout typedWhat"
  by code_simp

lemma reachable_settledWhat: "reachable asciiToLowerCase settledWhat"
proof -
  have "reachable asciiToLowerCase started"
    unfolding started_def by (intro r_loadGreeting r_initial)
  then have "reachable asciiToLowerCase (focusInput asciiToLowerCase started)"
    by (rule r_inputFocus)
  then have "reachable asciiToLowerCase typedWhat"
    unfolding typedWhat_def by (rule r_typeText)
  then show ?thesis
    unfolding settledWhat_def using typedWhat_armed by (rule r_autocompleteTimeout)
qed

lemma settledWhat_dropdown: "autocompleteVisible settledWhat"
  by code_simp

theorem C1_surfaces_exclusive_witness:
  "reachable asciiToLowerCase settledWhat \<and> autocompleteVisible settledWhat
   \<and> \<not> suggestionsVisible settledWhat
   \<and> \<not> autocompleteVisible (showSuggestions defaultSuggestions None settledWhat)"
  using C1_surfaces_exclusive [OF reachable_settledWhat, of "[]" "[]" defaultSuggestions None]
    reachable_settledWhat settledWhat_dropdown
  by simp

section \<open>The chips rendered\<close>

lemma policySpec_unused:
  "distinct xs \<Longrightarrow> \<forall>s\<in>set xs. s \<notin> set used \<Longrightarrow> policySpec used xs = take 3 xs"
proof -
  assume d: "distinct xs" and u: "\<forall>s\<in>set xs. s \<notin> set used"
  from u have "filter (\<lambda>s. s \<notin> set used) xs = xs" "filter (\<lambda>s. s \<in> set used) xs = []"
    by (simp_all add: filter_empty_conv)
  with d show ?thesis
    by (simp add: policySpec_def firstSeen_distinct)
qed

lemma policySpec_used:
  "distinct xs \<Longrightarrow> \<forall>s\<in>set xs. s \<in> set used \<Longrightarrow> policySpec used xs = take 3 xs"
proof -
  assume d: "distinct xs" and u: "\<forall>s\<in>set xs. s \<in> set used"
  from u have "filter (\<lambda>s. s \<in> set used) xs = xs" "filter (\<lambda>s. s \<notin> set used) xs = []"
    by (simp_all add: filter_empty_conv)
  with d show ?thesis
    by (simp add: policySpec_def firstSeen_distinct)
qed

lemma distinct_allSuggestions: "distinct allSuggestions"
  by (simp add: allSuggestions_def)

lemma length_allSuggestions: "length allSuggestions = 5"
  by (simp add: allSuggestions_def)

lemma policySpec_suggestionsToShow:
  "policySpec used (suggestionsToShow used) = suggestionsToShow used"
proof (cases "filter (\<lambda>s. s \<notin> set used) allSuggestions = []")
  case True
  then have all: "\<forall>s\<in>set allSuggestions. s \<in> set used"
    by (simp add: filter_empty_conv)
  have "policySpec used (take 3 allSuggestions) = take 3 (take 3 allSuggestions)"
    by (rule policySpec_used) (use all distinct_allSuggestions in \<open>auto dest: in_set_takeD\<close>)
  with True show ?thesis
    by (simp add: suggestionsToShow_def)
next
  case False
  let ?u = "filter (\<lambda>s. s \<notin> set used) allSuggestions"
  have "policySpec used (take 3 ?u) = take 3 (take 3 ?u)"
    by (rule policySpec_unused) (use distinct_allSuggestions in \<open>auto dest: in_set_takeD\<close>)
  with False show ?thesis
    by (simp add: suggestionsToShow_def)
qed

lemma suggestionsToShow_nonempty: "suggestionsToShow used \<noteq> []"
  by (simp add: suggestionsToShow_def Let_def allSuggestions_def)

lemma chipsEl_showSuggestionsIfAvailable:
  "trim (inputValue w) = [] \<Longrightarrow>
   chipsEl (showSuggestionsIfAvailable w) = suggestionsToShow (usedSuggestions w)"
  using suggestionsToShow_nonempty [of "usedSuggestions w"]
  by (simp add: showSuggestionsIfAvailable_def Let_def chipsEl_showSuggestions
      finalSuggestions_policySpec policySpec_suggestionsToShow)

lemma distinct_suggestionsToShow: "distinct (suggestionsToShow used)"
  using distinct_allSuggestions by (simp add: suggestionsToShow_def Let_def)

text \<open>
  Claim C2, as amended. For every candidate list passed to \<open>showSuggestions\<close> the chips
  rendered are the result of the selection policy: first occurrences only, the unused
  ones first, at most three, filled from the used ones up to three or until the candidates
  run out; an empty list hides the surface. \<open>showSuggestionsIfAvailable\<close> reduces its five
  fixed candidates differently: the first three unused ones when at least one is unused,
  the first three candidates when none is; what it renders is never empty, has at most
  three entries and no duplicate.
\<close>

theorem C2_selection_policy:
  "chipsEl (showSuggestions candidates title w) = policySpec (usedSuggestions w) candidates
   \<and> length (chipsEl (showSuggestions candidates title w)) = min 3 (card (set candidates))
   \<and> distinct (chipsEl (showSuggestions candidates title w))
   \<and> (suggestionsVisible (showSuggestions candidates title w) \<longleftrightarrow> candidates \<noteq> [])
   \<and> (trim (inputValue w) = [] \<longrightarrow>
        chipsEl (showSuggestionsIfAvailable w) =
          (if \<exists>s\<in>set allSuggestions. s \<notin> set (usedSuggestions w)
           then take 3 (filter (\<lambda>s. s \<notin> set (usedSuggestions w)) allSuggestions)
           else take 3 allSuggestions)
        \<and> chipsEl (showSuggestionsIfAvailable w) \<noteq> []
        \<and> length (chipsEl (showSuggestionsIfAvailable w)) \<le> 3
        \<and> distinct (chipsEl (showSuggestionsIfAvailable w))
        \<and> suggestionsVisible (showSuggestionsIfAvailable w))"
proof -
  have a: "chipsEl (showSuggestions candidates title w)
           = policySpec (usedSuggestions w) candidates"
    by (cases "candidates = []")
       (simp_all add: chipsEl_showSuggestions finalSuggestions_policySpec policySpec_def
          firstSeen_Nil)
  have b: "suggestionsVisible (showSuggestions candidates title w) \<longleftrightarrow> candidates \<noteq> []"
    by (simp add: suggestionsVisible_def suggestionsDisplay_showSuggestions)
  have c: "suggestionsToShow (usedSuggestions w) =
          (if \<exists>s\<in>set allSuggestions. s \<notin> set (usedSuggestions w)
           then take 3 (filter (\<lambda>s. s \<notin> set (usedSuggestions w)) allSuggestions)
           else take 3 allSuggestions)"
    by (simp add: suggestionsToShow_def filter_empty_conv)
  have d: "length (suggestionsToShow (usedSuggestions w)) \<le> 3"
    by (simp add: suggestionsToShow_def Let_def)
  have e: "trim (inputValue w) = [] \<Longrightarrow> suggestionsVisible (showSuggestionsIfAvailable w)"
    using suggestionsToShow_nonempty [of "usedSuggestions w"]
    by (simp add: showSuggestionsIfAvailable_def Let_def suggestionsVisible_def
        suggestionsDisplay_showSuggestions)
  have f: "length (chipsEl (showSuggestions candidates title w)) = min 3 (card (set candidates))"
    by (simp only: a length_policySpec)
  have g: "distinct (chipsEl (showSuggestions candidates title w))"
    by (simp only: a distinct_policySpec)
  have h: "trim (inputValue w) = [] \<longrightarrow>
        chipsEl (showSuggestionsIfAvailable w) =
          (if \<exists>s\<in>set allSuggestions. s \<notin> set (usedSuggestions w)
           then take 3 (filter (\<lambda>s. s \<notin> set (usedSuggestions w)) allSuggestions)
           else take 3 allSuggestions)
        \<and> chipsEl (showSuggestionsIfAvailable w) \<noteq> []
        \<and> length (chipsEl (showSuggestionsIfAvailable w)) \<le> 3
        \<and> distinct (chipsEl (showSuggestionsIfAvailable w))
        \<and> suggestionsVisible (showSuggestionsIfAvailable w)"
  proof
    assume t: "trim (inputValue w) = []"
    have ch: "chipsEl (showSuggestionsIfAvailable w) = suggestionsToShow (usedSuggestions w)"
      using t by (rule chipsEl_showSuggestionsIfAvailable)
    have 1: "chipsEl (showSuggestionsIfAvailable w) =
          (if \<exists>s\<in>set allSuggestions. s \<notin> set (usedSuggestions w)
           then take 3 (filter (\<lambda>s. s \<notin> set (usedSuggestions w)) allSuggestions)
           else take 3 allSuggestions)"
      using ch c by (rule trans)
    have 2: "chipsEl (showSuggestionsIfAvailable w) \<noteq> []"
      by (simp only: ch suggestionsToShow_nonempty not_False_eq_True)
    have 3: "length (chipsEl (showSuggestionsIfAvailable w)) \<le> 3"
      by (simp only: ch d)
    have 4: "distinct (chipsEl (showSuggestionsIfAvailable w))"
      by (simp only: ch distinct_suggestionsToShow)
    from 1 2 3 4 e [OF t]
    show "chipsEl (showSuggestionsIfAvailable w) =
          (if \<exists>s\<in>set allSuggestions. s \<notin> set (usedSuggestions w)
           then take 3 (filter (\<lambda>s. s \<notin> set (usedSuggestions w)) allSuggestions)
           else take 3 allSuggestions)
        \<and> chipsEl (showSuggestionsIfAvailable w) \<noteq> []
        \<and> length (chipsEl (showSuggestionsIfAvailable w)) \<le> 3
        \<and> distinct (chipsEl (showSuggestionsIfAvailable w))
        \<and> suggestionsVisible (showSuggestionsIfAvailable w)"
      by (intro conjI)
  qed
  from a f g b h show ?thesis
    by (intro conjI)
qed

lemma threeUsed_blank: "trim (inputValue threeUsed) = []"
  by code_simp

lemma threeUsed_chips:
  "chipsEl (showSuggestionsIfAvailable threeUsed) =
     map str [''What are all the source locations?'', ''What products are being shipped?'']"
  by code_simp

theorem C2_selection_policy_witness:
  "trim (inputValue threeUsed) = []
   \<and> chipsEl (showSuggestionsIfAvailable threeUsed) =
       map str [''What are all the source locations?'', ''What products are being shipped?'']
   \<and> chipsEl (showSuggestions allSuggestions None threeUsed) =
       policySpec (usedSuggestions threeUsed) allSuggestions
   \<and> length (chipsEl (showSuggestions allSuggestions None threeUsed)) = 3"
proof -
  note t = C2_selection_policy [of allSuggestions None threeUsed]
  have c5: "card (set allSuggestions) = 5"
    using distinct_card [OF distinct_allSuggestions] by (simp add: length_allSuggestions)
  from t have 1: "chipsEl (showSuggestions allSuggestions None threeUsed) =
       policySpec (usedSuggestions threeUsed) allSuggestions"
    by (rule conjunct1)
  from t have "length (chipsEl (showSuggestions allSuggestions None threeUsed))
               = min 3 (card (set allSuggestions))"
    by (elim conjE)
  with c5 have 2: "length (chipsEl (showSuggestions allSuggestions None threeUsed)) = 3"
    by simp
  from t threeUsed_blank
  have 3: "chipsEl (showSuggestionsIfAvailable threeUsed) \<noteq> []"
    by (elim conjE impE)
  from threeUsed_blank threeUsed_chips 1 2 show ?thesis
    by (intro conjI)
qed

text \<open>
  Claim C2 as stated fails for \<open>showSuggestionsIfAvailable\<close>: with three of the five
  candidates used and two unused, two chips are rendered, although the policy would fill
  the list to three from the used candidates.
\<close>

theorem C2_counterexample:
  "trim (inputValue threeUsed) = []
   \<and> length (filter (\<lambda>s. s \<notin> set (usedSuggestions threeUsed)) allSuggestions) = 2
   \<and> length (filter (\<lambda>s. s \<in> set (usedSuggestions threeUsed)) allSuggestions) = 3
   \<and> length (chipsEl (showSuggestionsIfAvailable threeUsed)) = 2
   \<and> chipsEl (showSuggestionsIfAvailable threeUsed)
       \<noteq> policySpec (usedSuggestions threeUsed) allSuggestions"
  by code_simp

section \<open>The message list under send and receive\<close>

lemma messagesEl_queryFailed:
  "messagesEl (queryFailed i e w) =
     removeById i (messagesEl w)
     @ [MessageEl (nextId w) Assistant
          (str ''Sorry, I encountered an error: '' @ errorMessageFor (apiUrl w) e)]"
  by (simp add: queryFailed_def removeMessage_def addMessage_def Let_def)

lemma sentTotalCost_elements:
  "messagesEl sentTotalCost =
     [MessageEl 0 Assistant defaultGreeting, MessageEl 1 User (str ''total cost of route 7''),
      LoadingEl 2]"
  by code_simp

lemma sentTotalCost_pending: "pendingQueries sentTotalCost = [2]"
  by code_simp

lemma errorMessageFor_abort:
  "\<not> includesStr m (str ''Failed to fetch'') \<Longrightarrow> \<not> includesStr m (str ''NetworkError'') \<Longrightarrow>
   \<not> includesStr m (str ''timeout'') \<Longrightarrow> errorMessageFor url (abortError m) = m"
  by (simp add: errorMessageFor_def abortError_def)

text \<open>
  Claim C3 at a query whose \<open>fetch\<close> is aborted by the 60 second timer. The loading
  placeholder is removed and one assistant message is appended, but its text carries the
  message of the abort error, not the text reserved for timeouts: the \<open>catch\<close> block
  looks for the name \<open>TimeoutError\<close> or the word \<open>timeout\<close>, and the error of an abort
  has the name \<open>AbortError\<close>.
\<close>

theorem C3_abort_not_reported_as_timeout:
  "messagesEl (sendMessageWithQuery_resume 2 (Rejected chromeAbort) sentTotalCost) =
     [MessageEl 0 Assistant defaultGreeting, MessageEl 1 User (str ''total cost of route 7''),
      MessageEl 3 Assistant
        (str ''Sorry, I encountered an error: signal is aborted without reason'')]
   \<and> str ''Sorry, I encountered an error: signal is aborted without reason''
       \<noteq> str ''Sorry, I encountered an error: '' @ timeoutMessage
   \<and> errorMessageFor (apiUrl sentTotalCost) chromeAbort \<noteq> timeoutMessage
   \<and> errorMessageFor (apiUrl sentTotalCost) \<lparr>errName = str ''TimeoutError'', errMessage = []\<rparr>
       = timeoutMessage"
  by code_simp

lemma hasPersonalInfo_iff:
  "hasPersonalInfo answer \<longleftrightarrow> (\<exists>label\<in>set personalInfoLabels. patternTest label answer)"
  by (simp add: hasPersonalInfo_def list_ex_iff)

lemma messagesEl_delivered:
  "q_error d = [] \<Longrightarrow>
   messagesEl (sendMessageWithQuery_resume i (Response True status (Json d)) w) =
     removeById i (messagesEl w)
     @ [MessageEl (nextId w) Assistant
          (let answer = (if q_answer d \<noteq> [] then q_answer d else str ''No answer provided'')
           in if hasPersonalInfo answer then refusalMessage else answer)]"
  by (simp add: sendMessageWithQuery_resume_def removeMessage_def addMessage_def Let_def)

text \<open>
  Claim C4. When the backend delivers an answer (an OK response without an \<open>error\<close>
  field), the loading placeholder is removed and one assistant message is appended. Its
  text is the fixed refusal, whole, when one of the ten field labels occurs in the answer
  (letter case ignored), and the answer itself, unchanged, when none occurs.
\<close>

theorem C4_personal_information_refused:
  "q_error d = [] \<Longrightarrow>
   answer = (if q_answer d \<noteq> [] then q_answer d else str ''No answer provided'') \<Longrightarrow>
   messagesEl (sendMessageWithQuery_resume loadingId (Response True status (Json d)) w) =
     removeById loadingId (messagesEl w)
     @ [MessageEl (nextId w) Assistant
          (if \<exists>label\<in>set personalInfoLabels. patternTest label answer
           then refusalMessage else answer)]"
  by (simp add: messagesEl_delivered hasPersonalInfo_iff Let_def)

lemma personalAnswer_matches:
  "\<exists>label\<in>set personalInfoLabels. patternTest label (q_answer personalAnswer)"
  by code_simp

lemma plainAnswer_matches:
  "\<not> (\<exists>label\<in>set personalInfoLabels. patternTest label (q_answer plainAnswer))"
  by code_simp

lemma personalAnswer_fields: "q_error personalAnswer = []" "q_answer personalAnswer \<noteq> []"
  by (simp_all add: personalAnswer_def)

lemma plainAnswer_fields:
  "q_error plainAnswer = []" "q_answer plainAnswer = str ''There are 42 consignments in total.''"
  by (simp_all add: plainAnswer_def)

theorem C4_personal_information_refused_witness:
  "q_error personalAnswer = []
   \<and> messagesEl (sendMessageWithQuery_resume 2 (Response True 200 (Json personalAnswer))
         sentTotalCost) =
       [MessageEl 0 Assistant defaultGreeting, MessageEl 1 User (str ''total cost of route 7''),
        MessageEl 3 Assistant refusalMessage]
   \<and> q_error plainAnswer = []
   \<and> messagesEl (sendMessageWithQuery_resume 2 (Response True 200 (Json plainAnswer))
         sentTotalCost) =
       [MessageEl 0 Assistant defaultGreeting, MessageEl 1 User (str ''total cost of route 7''),
        MessageEl 3 Assistant (str ''There are 42 consignments in total.'')]"
proof -
  have n: "nextId sentTotalCost = 3"
    by code_simp
  have r: "removeById 2 (messagesEl sentTotalCost) =
      [MessageEl 0 Assistant defaultGreeting, MessageEl 1 User (str ''total cost of route 7'')]"
    by (simp add: sentTotalCost_elements)
  have "messagesEl (sendMessageWithQuery_resume 2 (Response True 200 (Json personalAnswer))
         sentTotalCost) =
     removeById 2 (messagesEl sentTotalCost)
     @ [MessageEl (nextId sentTotalCost) Assistant
          (if \<exists>label\<in>set personalInfoLabels. patternTest label (q_answer personalAnswer)
           then refusalMessage else q_answer personalAnswer)]"
    by (rule C4_personal_information_refused) (simp_all add: personalAnswer_fields)
  then have a: "messagesEl (sendMessageWithQuery_resume 2
         (Response True 200 (Json personalAnswer)) sentTotalCost) =
       [MessageEl 0 Assistant defaultGreeting, MessageEl 1 User (str ''total cost of route 7''),
        MessageEl 3 Assistant refusalMessage]"
    using personalAnswer_matches by (simp add: n r)
  have "messagesEl (sendMessageWithQuery_resume 2 (Response True 200 (Json plainAnswer))
         sentTotalCost) =
     removeById 2 (messagesEl sentTotalCost)
     @ [MessageEl (nextId sentTotalCost) Assistant
          (if \<exists>label\<in>set personalInfoLabels. patternTest label (q_answer plainAnswer)
           then refusalMessage else q_answer plainAnswer)]"
    by (rule C4_personal_information_refused) (simp_all add: plainAnswer_fields)
  then have b: "messagesEl (sendMessageWithQuery_resume 2
         (Response True 200 (Json plainAnswer)) sentTotalCost) =
       [MessageEl 0 Assistant defaultGreeting, MessageEl 1 User (str ''total cost of route 7''),
        MessageEl 3 Assistant (str ''There are 42 consignments in total.'')]"
    using plainAnswer_matches by (simp add: n r plainAnswer_fields)
  from personalAnswer_fields(1) a plainAnswer_fields(1) b show ?thesis
    by (intro conjI)
qed

section \<open>What the surfaces leave alone\<close>

lemma sameSession_refl: "sameSession w w"
  by (simp add: sameSession_def)

lemma sameSession_trans: "sameSession a b \<Longrightarrow> sameSession b c \<Longrightarrow> sameSession a c"
  by (simp add: sameSession_def)

lemma sameSession_hideAutocomplete: "sameSession w (hideAutocomplete w)"
  by (simp add: sameSession_def hideAutocomplete_def Let_def)

lemma sameSession_hideSuggestions: "sameSession w (hideSuggestions w)"
  by (simp add: sameSession_def hideSuggestions_def)

lemma sameSession_showAutocomplete: "sameSession w (showAutocomplete s q w)"
  by (simp add: sameSession_def showAutocomplete_def hideSuggestions_def Let_def)

lemma sameSession_logRequest: "sameSession w (logRequest a b w)"
  by (simp add: sameSession_def logRequest_def)

lemma sameSession_handleAutocomplete:
  "sameSession w (afterStep w (handleAutocomplete lc q w))"
  by (simp add: handleAutocomplete_def afterStep_def Let_def sameSession_refl
      sameSession_hideAutocomplete sameSession_showAutocomplete sameSession_logRequest
      split: js_value.split)

lemma sameSession_focusInput: "sameSession (w\<lparr>inputFocused := True\<rparr>) (focusInput lc w)"
proof (cases "inputFocused w")
  case True
  then show ?thesis
    by (simp add: focusInput_def sameSession_def)
next
  case False
  then show ?thesis
    by (simp add: focusInput_def inputFocus_def Let_def sameSession_refl
        sameSession_handleAutocomplete)
qed

lemma handleAutocomplete_blank:
  "trim q = [] \<Longrightarrow> handleAutocomplete lc q w = Returned (hideAutocomplete w)"
  by (simp add: handleAutocomplete_def)

lemma requests_hideAutocomplete [simp]: "requests (hideAutocomplete w) = requests w"
  by (simp add: hideAutocomplete_def Let_def)

lemma requests_hideSuggestions [simp]: "requests (hideSuggestions w) = requests w"
  by (simp add: hideSuggestions_def)

lemma requests_showAutocomplete [simp]: "requests (showAutocomplete s q w) = requests w"
  by (simp add: showAutocomplete_def hideSuggestions_def Let_def)

lemma requests_focusInput_blank:
  "trim (inputValue w) = [] \<Longrightarrow> requests (focusInput lc w) = requests w"
  by (simp add: focusInput_def inputFocus_def Let_def handleAutocomplete_blank afterStep_def)

text \<open>
  Claim C10. A send while the input is empty or holds only white space makes no request,
  adds neither a user message nor a loading placeholder, and appends exactly one assistant
  message, the advice to type a question. A send with any other input appends the user
  message and the loading placeholder and makes the query request.
\<close>

theorem C10_empty_send:
  "(trim (inputValue w) = [] \<longrightarrow>
      requests (sendMessage toLowerCase w) = requests w
      \<and> pendingQueries (sendMessage toLowerCase w) = pendingQueries w
      \<and> messagesEl (sendMessage toLowerCase w) =
          messagesEl w @ [MessageEl (nextId w) Assistant emptyQueryMessage]
      \<and> messages (sendMessage toLowerCase w) =
          messages w @ [\<lparr>msgId = nextId w, msgType = Assistant, content = emptyQueryMessage\<rparr>])
   \<and> (trim (inputValue w) \<noteq> [] \<longrightarrow>
      requests (sendMessage toLowerCase w) = requests w @ [(''query'', trim (inputValue w))]
      \<and> pendingQueries (sendMessage toLowerCase w) = pendingQueries w @ [Suc (nextId w)]
      \<and> messagesEl (sendMessage toLowerCase w) =
          messagesEl w @ [MessageEl (nextId w) User (trim (inputValue w)),
                          LoadingEl (Suc (nextId w))]
      \<and> messages (sendMessage toLowerCase w) =
          messages w @ [\<lparr>msgId = nextId w, msgType = User, content = trim (inputValue w)\<rparr>])"
proof (intro conjI impI)
  assume blank: "trim (inputValue w) = []"
  have s: "sameSession (w\<lparr>inputFocused := True\<rparr>) (focusInput toLowerCase w)"
    by (rule sameSession_focusInput)
  have r: "requests (focusInput toLowerCase w) = requests w"
    using blank by (rule requests_focusInput_blank)
  show "requests (sendMessage toLowerCase w) = requests w"
    using blank r by (simp add: sendMessage_def addMessage_def)
  show "pendingQueries (sendMessage toLowerCase w) = pendingQueries w"
    using blank s by (simp add: sendMessage_def addMessage_def sameSession_def)
  show "messagesEl (sendMessage toLowerCase w) =
          messagesEl w @ [MessageEl (nextId w) Assistant emptyQueryMessage]"
    using blank s by (simp add: sendMessage_def addMessage_def sameSession_def)
  show "messages (sendMessage toLowerCase w) =
          messages w @ [\<lparr>msgId = nextId w, msgType = Assistant, content = emptyQueryMessage\<rparr>]"
    using blank s by (simp add: sendMessage_def addMessage_def sameSession_def)
next
  assume nonblank: "trim (inputValue w) \<noteq> []"
  let ?q = "trim (inputValue w)"
  let ?w3 = "(hideSuggestions (hideAutocomplete
               ((addMessage User ?q w)\<lparr>preventSuggestions := True\<rparr>)))\<lparr>inputValue := []\<rparr>"
  have s: "sameSession (?w3\<lparr>inputFocused := True\<rparr>) (focusInput toLowerCase ?w3)"
    by (rule sameSession_focusInput)
  have "trim (inputValue ?w3) = []"
    by (simp add: trim_def)
  then have r: "requests (focusInput toLowerCase ?w3) = requests ?w3"
    by (rule requests_focusInput_blank)
  have f: "messagesEl ?w3 = messagesEl w @ [MessageEl (nextId w) User ?q]"
      "messages ?w3 = messages w @ [\<lparr>msgId = nextId w, msgType = User, content = ?q\<rparr>]"
      "nextId ?w3 = Suc (nextId w)" "pendingQueries ?w3 = pendingQueries w"
      "requests ?w3 = requests w"
    by (simp_all add: addMessage_def hideAutocomplete_def hideSuggestions_def Let_def)
  have e: "sendMessage toLowerCase w =
      (let w4 = focusInput toLowerCase ?w3;
           w5 = w4\<lparr>timeouts := timeouts w4 @ [AfterSend]\<rparr>;
           w6 = w5\<lparr>messagesEl := messagesEl w5 @ [LoadingEl (nextId w5)],
                   nextId := Suc (nextId w5)\<rparr>;
           w7 = logRequest ''query'' ?q w6
       in w7\<lparr>pendingQueries := pendingQueries w7 @ [nextId w5]\<rparr>)"
    using nonblank
    by (simp add: sendMessage_def sendMessageWithQuery_def addLoadingMessage_def Let_def)
  show "requests (sendMessage toLowerCase w) = requests w @ [(''query'', ?q)]"
    using r f by (simp add: e logRequest_def Let_def)
  show "pendingQueries (sendMessage toLowerCase w) = pendingQueries w @ [Suc (nextId w)]"
    using s f by (simp add: e logRequest_def Let_def sameSession_def)
  show "messagesEl (sendMessage toLowerCase w) =
          messagesEl w @ [MessageEl (nextId w) User ?q, LoadingEl (Suc (nextId w))]"
    using s f by (simp add: e logRequest_def Let_def sameSession_def)
  show "messages (sendMessage toLowerCase w) =
          messages w @ [\<lparr>msgId = nextId w, msgType = User, content = ?q\<rparr>]"
    using s f by (simp add: e logRequest_def Let_def sameSession_def)
qed

lemma typedSpaces_blank:
  "inputValue typedSpaces = str ''   ''" "trim (inputValue typedSpaces) = []"
  "messagesEl typedSpaces = [MessageEl 0 Assistant defaultGreeting]"
  "nextId typedSpaces = 1" "requests typedSpaces = [(''greet'', [])]"
  by code_simp+

lemma typedNoBreakSpace_blank:
  "inputValue typedNoBreakSpace = [(CHR 0x00, CHR 0xA0)]"
  "trim (inputValue typedNoBreakSpace) = []"
  "messagesEl typedNoBreakSpace = [MessageEl 0 Assistant defaultGreeting]"
  "nextId typedNoBreakSpace = 1" "requests typedNoBreakSpace = [(''greet'', [])]"
  by code_simp+

lemma typedTotalCost_facts:
  "trim (inputValue typedTotalCost) = str ''total cost of route 7''"
  "messagesEl typedTotalCost = [MessageEl 0 Assistant defaultGreeting]"
  "nextId typedTotalCost = 1" "requests typedTotalCost = [(''greet'', [])]"
  by code_simp+

theorem C10_empty_send_witness:
  "inputValue typedSpaces = str ''   ''
   \<and> requests (sendMessage asciiToLowerCase typedSpaces) = [(''greet'', [])]
   \<and> messagesEl (sendMessage asciiToLowerCase typedSpaces) =
       [MessageEl 0 Assistant defaultGreeting, MessageEl 1 Assistant emptyQueryMessage]
   \<and> inputValue typedNoBreakSpace = [(CHR 0x00, CHR 0xA0)]
   \<and> requests (sendMessage asciiToLowerCase typedNoBreakSpace) = [(''greet'', [])]
   \<and> messagesEl (sendMessage asciiToLowerCase typedNoBreakSpace) =
       [MessageEl 0 Assistant defaultGreeting, MessageEl 1 Assistant emptyQueryMessage]
   \<and> trim (inputValue typedTotalCost) = str ''total cost of route 7''
   \<and> requests (sendMessage asciiToLowerCase typedTotalCost) =
       [(''greet'', []), (''query'', str ''total cost of route 7'')]
   \<and> messagesEl (sendMessage asciiToLowerCase typedTotalCost) =
       [MessageEl 0 Assistant defaultGreeting, MessageEl 1 User (str ''total cost of route 7''),
        LoadingEl 2]"
  using C10_empty_send [of typedSpaces asciiToLowerCase]
        C10_empty_send [of typedNoBreakSpace asciiToLowerCase]
        C10_empty_send [of typedTotalCost asciiToLowerCase]
        typedSpaces_blank typedNoBreakSpace_blank typedTotalCost_facts
  by simp

section \<open>Startup without a greeting\<close>

lemma set_policySpec_small: "card (set cs) \<le> 3 \<Longrightarrow> set (policySpec used cs) = set cs"
proof -
  assume c: "card (set cs) \<le> 3"
  let ?a = "filter (\<lambda>s. s \<notin> set used) (firstSeen cs)"
  let ?b = "filter (\<lambda>s. s \<in> set used) (firstSeen cs)"
  have "length ?a + length ?b = length (firstSeen cs)"
    using sum_length_filter_compl [of "\<lambda>s. s \<in> set used" "firstSeen cs"] by simp
  with c have "length (?a @ ?b) \<le> 3"
    by (simp add: length_firstSeen)
  then have "policySpec used cs = ?a @ ?b"
    by (simp add: policySpec_def)
  moreover have "set (?a @ ?b) = set (firstSeen cs)"
    by auto
  ultimately show ?thesis
    by (simp only: set_firstSeen)
qed

lemma defaultSuggestions_three:
  "distinct defaultSuggestions" "length defaultSuggestions = 3" "defaultSuggestions \<noteq> []"
  by (simp_all add: defaultSuggestions_def)

lemma messagesEl_showSuggestions [simp]:
  "messagesEl (showSuggestions cs title w) = messagesEl w"
  by (simp add: showSuggestions_def hideAutocomplete_def Let_def split: option.split)

lemma loadGreeting_failed:
  "r = Rejected e \<or> r = Response False status b \<Longrightarrow>
   loadGreeting r w = greetingFailed (logRequest ''greet'' [] w)"
  by (auto simp add: loadGreeting_def Let_def)

lemma chipsEl_greetingFailed:
  "chipsEl (greetingFailed w) = policySpec (usedSuggestions w) defaultSuggestions"
  by (simp add: greetingFailed_def chipsEl_showSuggestions defaultSuggestions_three
      finalSuggestions_policySpec addMessage_def)

text \<open>
  Claim C9. When the request for the greeting is rejected or answered with a status that
  is not OK, the fixed default greeting is appended as an assistant message and the chip
  surface is displayed with the three fixed default suggestions (in their own order when
  nothing has been used yet, which is the case at startup).
\<close>

theorem C9_default_greeting:
  "r = Rejected e \<or> r = Response False status b \<Longrightarrow>
   messagesEl (loadGreeting r w) = messagesEl w @ [MessageEl (nextId w) Assistant defaultGreeting]
   \<and> suggestionsVisible (loadGreeting r w)
   \<and> length (chipsEl (loadGreeting r w)) = 3
   \<and> set (chipsEl (loadGreeting r w)) = set defaultSuggestions
   \<and> length defaultSuggestions = 3
   \<and> (usedSuggestions w = [] \<longrightarrow> chipsEl (loadGreeting r w) = defaultSuggestions)"
proof -
  assume "r = Rejected e \<or> r = Response False status b"
  then have l: "loadGreeting r w = greetingFailed (logRequest ''greet'' [] w)"
    by (rule loadGreeting_failed)
  let ?v = "logRequest ''greet'' [] w"
  have u: "usedSuggestions ?v = usedSuggestions w" "messagesEl ?v = messagesEl w"
      "nextId ?v = nextId w"
    by (simp_all add: logRequest_def)
  have c3: "card (set defaultSuggestions) = 3"
    using distinct_card [OF defaultSuggestions_three(1)] defaultSuggestions_three(2) by simp
  have m: "messagesEl (greetingFailed ?v) =
           messagesEl w @ [MessageEl (nextId w) Assistant defaultGreeting]"
    by (simp add: greetingFailed_def addMessage_def u)
  have v: "suggestionsVisible (greetingFailed ?v)"
    by (simp add: greetingFailed_def suggestionsVisible_def suggestionsDisplay_showSuggestions
        defaultSuggestions_three)
  have n: "length (chipsEl (greetingFailed ?v)) = 3"
    by (simp add: chipsEl_greetingFailed length_policySpec c3)
  have st: "set (chipsEl (greetingFailed ?v)) = set defaultSuggestions"
    by (simp add: chipsEl_greetingFailed set_policySpec_small c3)
  have f: "usedSuggestions w = [] \<longrightarrow> chipsEl (greetingFailed ?v) = defaultSuggestions"
    by (simp add: chipsEl_greetingFailed u policySpec_def firstSeen_distinct
        defaultSuggestions_three)
  from m v n st f defaultSuggestions_three(2) show ?thesis
    unfolding l by (intro conjI)
qed

theorem C9_default_greeting_witness:
  "messagesEl started = [MessageEl 0 Assistant defaultGreeting]
   \<and> suggestionsVisible started
   \<and> chipsEl started =
       map str [''What are all the column names in this file?'',
                ''How many consignments are there in total?'',
                ''What is the total transportation cost?'']"
  using C9_default_greeting [of "Rejected fetchFailed" fetchFailed 0 "Malformed fetchFailed"
      "initial (str ''http://localhost:5000/api'')"]
  by (simp add: started_def initial_def defaultSuggestions_def)

section \<open>Selecting an autocomplete item\<close>

lemma sameSession_inputHandler: "sameSession w (inputHandler w)"
  by (simp add: inputHandler_def Let_def sameSession_def hideSuggestions_def
      hideAutocomplete_def)

lemma requests_inputHandler [simp]: "requests (inputHandler w) = requests w"
  by (simp add: inputHandler_def Let_def)

lemma rendering_inputHandler [simp]:
  "autocompleteRendering (inputHandler w) = autocompleteRendering w"
  by (simp add: inputHandler_def Let_def hideSuggestions_def hideAutocomplete_def)

lemma rendering_hideAutocomplete [simp]:
  "autocompleteRendering (hideAutocomplete w) = autocompleteRendering w"
  by (simp add: hideAutocomplete_def Let_def)

lemma rendering_showAutocomplete [simp]:
  "autocompleteRendering (showAutocomplete s q w) = Suc (autocompleteRendering w)"
  by (simp add: showAutocomplete_def hideSuggestions_def Let_def)

lemma timeout_showAutocomplete [simp]:
  "autocompleteTimeout (showAutocomplete s q w) = autocompleteTimeout w"
  by (simp add: showAutocomplete_def hideSuggestions_def Let_def)

lemma queryRequests_logRequest:
  "queryRequests (logRequest ''autocomplete'' q w) = queryRequests w"
  by (simp add: queryRequests_def logRequest_def)

lemma queryRequests_requests:
  "requests w' = requests w \<Longrightarrow> queryRequests w' = queryRequests w"
  by (simp add: queryRequests_def)

lemma step_timeout:
  "autocompleteTimeout (afterStep v (handleAutocomplete lc q v)) \<Longrightarrow> autocompleteTimeout v"
  by (simp add: handleAutocomplete_def afterStep_def Let_def logRequest_def
      split: if_splits js_value.splits)

lemma step_queryRequests:
  "queryRequests (afterStep v (handleAutocomplete lc q v)) = queryRequests v"
  by (simp add: handleAutocomplete_def afterStep_def Let_def queryRequests_def
      logRequest_def split: js_value.split)

lemma step_display:
  "autocompleteRendering (afterStep v (handleAutocomplete lc q v)) = autocompleteRendering v \<Longrightarrow>
   autocompleteDisplay (afterStep v (handleAutocomplete lc q v)) \<Longrightarrow> autocompleteDisplay v"
  by (simp add: handleAutocomplete_def afterStep_def Let_def logRequest_def
      split: if_splits js_value.splits)

lemma focusInput_cases:
  "focusInput lc v = v \<or> focusInput lc v = v\<lparr>inputFocused := True\<rparr>
   \<or> focusInput lc v =
       afterStep (v\<lparr>inputFocused := True\<rparr>)
         (handleAutocomplete lc (inputValue v) (v\<lparr>inputFocused := True\<rparr>))"
  by (simp add: focusInput_def inputFocus_def Let_def)

lemma focusInput_timeout:
  "autocompleteTimeout (focusInput lc v) \<Longrightarrow> autocompleteTimeout v"
proof -
  assume a: "autocompleteTimeout (focusInput lc v)"
  let ?v = "v\<lparr>inputFocused := True\<rparr>"
  have t: "autocompleteTimeout ?v = autocompleteTimeout v"
    by simp
  from focusInput_cases [of lc v] show ?thesis
  proof (elim disjE)
    assume "focusInput lc v = v"
    with a show ?thesis by simp
  next
    assume "focusInput lc v = ?v"
    with a show ?thesis by simp
  next
    assume "focusInput lc v = afterStep ?v (handleAutocomplete lc (inputValue v) ?v)"
    with a have "autocompleteTimeout (afterStep ?v (handleAutocomplete lc (inputValue v) ?v))"
      by simp
    then have "autocompleteTimeout ?v"
      by (rule step_timeout)
    with t show ?thesis by simp
  qed
qed

lemma focusInput_queryRequests: "queryRequests (focusInput lc v) = queryRequests v"
proof -
  let ?v = "v\<lparr>inputFocused := True\<rparr>"
  have t: "queryRequests ?v = queryRequests v"
    by (simp add: queryRequests_def)
  from focusInput_cases [of lc v] show ?thesis
  proof (elim disjE)
    assume "focusInput lc v = v"
    then show ?thesis by simp
  next
    assume "focusInput lc v = ?v"
    with t show ?thesis by simp
  next
    assume "focusInput lc v = afterStep ?v (handleAutocomplete lc (inputValue v) ?v)"
    then have "queryRequests (focusInput lc v) = queryRequests ?v"
      by (simp only: step_queryRequests)
    with t show ?thesis by simp
  qed
qed

lemma focusInput_display:
  "autocompleteRendering (focusInput lc v) = autocompleteRendering v \<Longrightarrow>
   autocompleteDisplay (focusInput lc v) \<Longrightarrow> autocompleteDisplay v"
proof -
  assume r: "autocompleteRendering (focusInput lc v) = autocompleteRendering v"
    and d: "autocompleteDisplay (focusInput lc v)"
  let ?v = "v\<lparr>inputFocused := True\<rparr>"
  have t: "autocompleteDisplay ?v = autocompleteDisplay v"
      "autocompleteRendering ?v = autocompleteRendering v"
    by simp_all
  from focusInput_cases [of lc v] show ?thesis
  proof (elim disjE)
    assume "focusInput lc v = v"
    with d show ?thesis by simp
  next
    assume "focusInput lc v = ?v"
    with d show ?thesis by simp
  next
    assume e: "focusInput lc v = afterStep ?v (handleAutocomplete lc (inputValue v) ?v)"
    from r have "autocompleteRendering (afterStep ?v (handleAutocomplete lc (inputValue v) ?v))
                 = autocompleteRendering ?v"
      by (simp only: e t)
    moreover from d
    have "autocompleteDisplay (afterStep ?v (handleAutocomplete lc (inputValue v) ?v))"
      by (simp only: e)
    ultimately have "autocompleteDisplay ?v"
      by (rule step_display)
    with t show ?thesis by simp
  qed
qed

lemma selection_hideAutocomplete:
  "selection w item w' \<Longrightarrow> selection w item (hideAutocomplete w')"
  using sameSession_hideAutocomplete [of w']
  by (simp add: selection_def sameSession_def autocompleteVisible_def queryRequests_def)

text \<open>
  Claim C8, as amended. Selecting an autocomplete item by a click, by Enter or by Tab
  places its exact text into the input, hides the dropdown, leaves the focus on the
  input, sends nothing and leaves \<open>UsedSuggestions\<close> as it was: only a click on a chip
  records a suggestion as used. A click is the listener of the item followed by the
  listener of the document; Enter and Tab reach the input while it has the focus, Enter
  selects the highlighted item, Tab the highlighted item or else the first one.
\<close>

theorem C8_select_autocomplete_item:
  "0 \<le> i \<Longrightarrow> i < int (length (autocompleteItems w)) \<Longrightarrow>
   selection w (autocompleteItems w ! nat i) (itemClick toLowerCase i w)
   \<and> (inputFocused w \<longrightarrow>
        selection w (autocompleteItems w ! nat i) (selectAutocompleteItem toLowerCase i w)
        \<and> requests (selectAutocompleteItem toLowerCase i w) = requests w)
   \<and> (i = currentAutocompleteIndex w \<longrightarrow>
        keydown toLowerCase (Enter False) w = selectAutocompleteItem toLowerCase i w
        \<and> keydown toLowerCase Tab w = selectAutocompleteItem toLowerCase i w)
   \<and> (i = 0 \<and> currentAutocompleteIndex w < 0 \<longrightarrow>
        keydown toLowerCase Tab w = selectAutocompleteItem toLowerCase 0 w)"
proof -
  assume i: "0 \<le> i" "i < int (length (autocompleteItems w))"
  let ?item = "autocompleteItems w ! nat i"
  let ?w2 = "hideAutocomplete (setInputValue ?item w)"
  let ?w1 = "selectAutocompleteItem toLowerCase i w"
  have sel: "?w1 = focusInput toLowerCase ?w2"
    using i by (simp add: selectAutocompleteItem_def)
  have "sameSession (w\<lparr>inputValue := ?item\<rparr>) (setInputValue ?item w)"
    unfolding setInputValue_def by (rule sameSession_inputHandler)
  then have s2: "sameSession (w\<lparr>inputValue := ?item\<rparr>) ?w2"
    by (rule sameSession_trans [OF _ sameSession_hideAutocomplete])
  have r2: "requests ?w2 = requests w" "autocompleteRendering ?w2 = autocompleteRendering w"
      "\<not> autocompleteDisplay ?w2" "\<not> autocompleteTimeout ?w2"
    by (simp_all add: setInputValue_def)
  have s3: "sameSession (?w2\<lparr>inputFocused := True\<rparr>) ?w1"
    unfolding sel by (rule sameSession_focusInput)
  have t1: "\<not> autocompleteTimeout ?w1"
  proof
    assume "autocompleteTimeout ?w1"
    then have "autocompleteTimeout (focusInput toLowerCase ?w2)"
      by (simp only: sel)
    then have "autocompleteTimeout ?w2"
      by (rule focusInput_timeout)
    with r2(4) show False by contradiction
  qed
  have "queryRequests ?w2 = queryRequests w"
    using r2(1) by (rule queryRequests_requests)
  then have q1: "queryRequests ?w1 = queryRequests w"
    by (simp only: sel focusInput_queryRequests)
  have d1: "\<not> autocompleteDisplay ?w1"
    if same: "autocompleteRendering ?w1 = autocompleteRendering w"
  proof
    assume "autocompleteDisplay ?w1"
    then have "autocompleteDisplay (focusInput toLowerCase ?w2)"
      by (simp only: sel)
    moreover from same r2(2)
    have "autocompleteRendering (focusInput toLowerCase ?w2) = autocompleteRendering ?w2"
      by (simp only: sel)
    ultimately have "autocompleteDisplay ?w2"
      by (rule focusInput_display [rotated])
    with r2(3) show False by contradiction
  qed
  have frame: "inputValue ?w1 = ?item" "inputFocused ?w1"
      "usedSuggestions ?w1 = usedSuggestions w" "messagesEl ?w1 = messagesEl w"
      "messages ?w1 = messages w" "pendingQueries ?w1 = pendingQueries w"
    using s2 s3 by (simp_all add: sameSession_def)
  have a: "selection w ?item (itemClick toLowerCase i w)"
  proof (cases "autocompleteRendering ?w1 = autocompleteRendering w")
    case True
    then have "itemClick toLowerCase i w = ?w1"
      by (simp add: itemClick_def documentClick_def Let_def)
    with frame t1 q1 d1 [OF True] show ?thesis
      by (simp add: selection_def autocompleteVisible_def)
  next
    case False
    then have e: "itemClick toLowerCase i w = hideAutocomplete ?w1"
      by (simp add: itemClick_def documentClick_def Let_def)
    have s4: "sameSession ?w1 (hideAutocomplete ?w1)"
      by (rule sameSession_hideAutocomplete)
    from frame q1 s4 show ?thesis
      by (simp add: e selection_def autocompleteVisible_def sameSession_def queryRequests_def)
  qed
  have b: "inputFocused w \<longrightarrow> selection w ?item ?w1 \<and> requests ?w1 = requests w"
  proof
    assume "inputFocused w"
    with s2 have "inputFocused ?w2"
      by (simp add: sameSession_def)
    then have eq: "focusInput toLowerCase ?w2 = ?w2"
      by (simp add: focusInput_def)
    from frame t1 q1 r2 show "selection w ?item ?w1 \<and> requests ?w1 = requests w"
      by (simp add: selection_def autocompleteVisible_def sel eq)
  qed
  have ne: "length (autocompleteItems w) > 0"
    using i by (cases "autocompleteItems w") simp_all
  have c: "i = currentAutocompleteIndex w \<longrightarrow>
        keydown toLowerCase (Enter False) w = ?w1 \<and> keydown toLowerCase Tab w = ?w1"
    using i ne by (simp add: keydown_def)
  have d: "i = 0 \<and> currentAutocompleteIndex w < 0 \<longrightarrow>
        keydown toLowerCase Tab w = selectAutocompleteItem toLowerCase 0 w"
    using ne by (simp add: keydown_def)
  from a b c d show ?thesis
    by (intro conjI)
qed

lemma pressedOnItem_facts:
  "\<not> inputFocused pressedOnItem" "0 < int (length (autocompleteItems pressedOnItem))"
  "autocompleteItems pressedOnItem ! nat 0
     = str ''What are all the column names in this dataset?''"
  "usedSuggestions pressedOnItem = []" "autocompleteVisible pressedOnItem"
  by code_simp+

theorem C8_select_autocomplete_item_witness:
  "\<not> inputFocused pressedOnItem \<and> autocompleteVisible pressedOnItem
   \<and> 0 < int (length (autocompleteItems pressedOnItem))
   \<and> inputValue (itemClick asciiToLowerCase 0 pressedOnItem) =
       str ''What are all the column names in this dataset?''
   \<and> \<not> autocompleteVisible (itemClick asciiToLowerCase 0 pressedOnItem)
   \<and> inputFocused (itemClick asciiToLowerCase 0 pressedOnItem)
   \<and> usedSuggestions (itemClick asciiToLowerCase 0 pressedOnItem) = []"
  using C8_select_autocomplete_item [of 0 pressedOnItem asciiToLowerCase] pressedOnItem_facts
  by (simp add: selection_def)

text \<open>
  Claim C8 as stated fails: the text of the selected item is not recorded in
  \<open>UsedSuggestions\<close>, whereas the text of a clicked chip is.
\<close>

theorem C8_counterexample:
  "autocompleteItems pressedOnItem ! nat 0
     = str ''What are all the column names in this dataset?''
   \<and> inputValue (itemClick asciiToLowerCase 0 pressedOnItem) =
       str ''What are all the column names in this dataset?''
   \<and> str ''What are all the column names in this dataset?''
       \<notin> set (usedSuggestions (itemClick asciiToLowerCase 0 pressedOnItem))
   \<and> str ''What are all the column names in this dataset?''
       \<notin> set (usedSuggestions (selectAutocompleteItem asciiToLowerCase 0 settledWhat))
   \<and> str ''What is the total transportation cost?'' \<in> set (chipsEl started)
   \<and> str ''What is the total transportation cost?''
       \<in> set (usedSuggestions
                (chipClick asciiToLowerCase (str ''What is the total transportation cost?'')
                   started))"
  by code_simp

section \<open>The resolver\<close>

lemma handleAutocomplete_remote:
  "reachesRemote toLowerCase q \<Longrightarrow>
   handleAutocomplete toLowerCase q w =
     Awaits (logRequest ''autocomplete'' (toLowerCase (trim q)) w)"
  by (auto simp add: reachesRemote_def handleAutocomplete_def Let_def split: js_value.splits)

lemma handleAutocomplete_local:
  "\<not> reachesRemote toLowerCase q \<Longrightarrow>
   requests (afterStep w (handleAutocomplete_run toLowerCase q r1 r2 w)) = requests w"
  by (auto simp add: reachesRemote_def handleAutocomplete_run_def handleAutocomplete_def
      afterStep_def Let_def Suc_le_eq split: js_value.splits)

lemma short_query:
  "length (toLowerCase (trim q)) < 2 \<Longrightarrow>
   handleAutocomplete toLowerCase q w = Returned (hideAutocomplete w)"
  by (simp add: handleAutocomplete_def Let_def)

lemma requests_logRequest [simp]:
  "requests (logRequest operation q w) = requests w @ [(operation, q)]"
  by (simp add: logRequest_def)

lemma requests_fallback [simp]: "requests (handleAutocomplete_fallback q r2 w) = requests w"
  by (simp add: handleAutocomplete_fallback_def
      split: fetch_result.split body.split option.split)

text \<open>The widget after a resolution that gets as far as the lookup of the whole query.\<close>

lemma run_remote:
  "reachesRemote toLowerCase q \<Longrightarrow>
   afterStep w (handleAutocomplete_run toLowerCase q r1 r2 w) =
     (case handleAutocomplete_resume toLowerCase q r1
             (logRequest ''autocomplete'' (toLowerCase (trim q)) w) of
        Raised e \<Rightarrow> w
      | Returned w2 \<Rightarrow> w2
      | Awaits w2 \<Rightarrow> handleAutocomplete_fallback q r2 w2)"
  by (simp add: handleAutocomplete_remote handleAutocomplete_run_def afterStep_def
      split: step.split)

lemma resume_nonOk:
  "nonOk r1 \<Longrightarrow>
   handleAutocomplete_resume toLowerCase q r1 v =
     (if 2 \<le> length (last (splitRuns isWhiteSpace (toLowerCase (trim q))))
         \<and> last (splitRuns isWhiteSpace (toLowerCase (trim q))) \<noteq> toLowerCase (trim q)
      then Awaits (logRequest ''autocomplete''
                     (last (splitRuns isWhiteSpace (toLowerCase (trim q)))) v)
      else Returned (hideAutocomplete v))"
  by (cases r1) (simp_all add: nonOk_def handleAutocomplete_resume_def Let_def)

lemma requests_resume:
  "requests (case handleAutocomplete_resume toLowerCase q r1 v of
               Raised e \<Rightarrow> w | Returned w2 \<Rightarrow> w2
             | Awaits w2 \<Rightarrow> handleAutocomplete_fallback q r2 w2) =
     requests v @
       (if nonOk r1 \<and> 2 \<le> length (last (splitRuns isWhiteSpace (toLowerCase (trim q))))
           \<and> last (splitRuns isWhiteSpace (toLowerCase (trim q))) \<noteq> toLowerCase (trim q)
        then [(''autocomplete'', last (splitRuns isWhiteSpace (toLowerCase (trim q))))]
        else [])"
proof (cases r1)
  case (Rejected e)
  then show ?thesis
    by (simp add: nonOk_def handleAutocomplete_resume_def Let_def)
next
  case (Response ok status b)
  show ?thesis
  proof (cases ok)
    case True
    with Response show ?thesis
      by (simp add: nonOk_def handleAutocomplete_resume_def Let_def
          split: body.split option.split)
  next
    case False
    with Response have "nonOk r1"
      by (simp add: nonOk_def)
    then show ?thesis
      by (simp add: resume_nonOk)
  qed
qed


lemma display_fallback:
  "\<not> yieldsSuggestions r2 \<Longrightarrow> \<not> autocompleteDisplay (handleAutocomplete_fallback q r2 v)"
proof (cases r2)
  case (Rejected e)
  then show ?thesis
    by (simp add: handleAutocomplete_fallback_def)
next
  case (Response fallbackOk fallbackStatus fallbackBody)
  assume "\<not> yieldsSuggestions r2"
  with Response
  have "fallbackOk \<Longrightarrow> fallbackBody = Json (Some suggestions) \<Longrightarrow> suggestions = []"
    for suggestions
    by (simp add: yieldsSuggestions_def)
  with Response show ?thesis
    by (simp add: handleAutocomplete_fallback_def split: body.split option.split)
qed

lemma hidden_after_fallback:
  "nonOk r1 \<Longrightarrow> \<not> yieldsSuggestions r2 \<Longrightarrow>
   \<not> autocompleteDisplay
       (case handleAutocomplete_resume toLowerCase q r1 v of
          Raised e \<Rightarrow> w | Returned w2 \<Rightarrow> w2
        | Awaits w2 \<Rightarrow> handleAutocomplete_fallback q r2 w2)"
  by (simp add: resume_nonOk display_fallback)

lemma hidden_without_fallback:
  "nonOk r1 \<Longrightarrow>
   \<not> (last (splitRuns isWhiteSpace (toLowerCase (trim q))) \<noteq> toLowerCase (trim q)
      \<and> 2 \<le> length (last (splitRuns isWhiteSpace (toLowerCase (trim q))))) \<Longrightarrow>
   \<not> autocompleteDisplay
       (case handleAutocomplete_resume toLowerCase q r1 v of
          Raised e \<Rightarrow> w | Returned w2 \<Rightarrow> w2
        | Awaits w2 \<Rightarrow> handleAutocomplete_fallback q r2 w2)"
  by (auto simp add: resume_nonOk)

text \<open>
  Claim C7 at the input \<open>h\<close>. One character is neither empty nor white space, and the
  listener of the input treats it as a query: it hides the chips and starts the timer of
  the resolver. The resolver then stops at its second guard, which asks for two code
  units: it hides the dropdown and makes no lookup, so that neither surface is visible
  once the timer has fired. With the two characters \<open>ho\<close> the resolver goes on to the
  lookup.
\<close>

theorem C7_single_character_not_resolved:
  "trim (str ''h'') = str ''h''
   \<and> suggestionsVisible started
   \<and> autocompleteTimeout (typeText (str ''h'') started)
   \<and> \<not> suggestionsVisible (typeText (str ''h'') started)
   \<and> handleAutocomplete asciiToLowerCase (str ''h'') (typeText (str ''h'') started)
       = Returned (hideAutocomplete (typeText (str ''h'') started))
   \<and> handleAutocomplete_run asciiToLowerCase (str ''h'')
         (Response True 200 (Json (Some carriers))) noSuggestions (typeText (str ''h'') started)
       = Returned (hideAutocomplete (typeText (str ''h'') started))
   \<and> \<not> autocompleteVisible
         (autocompleteTimeoutFired asciiToLowerCase (typeText (str ''h'') started))
   \<and> \<not> suggestionsVisible
         (autocompleteTimeoutFired asciiToLowerCase (typeText (str ''h'') started))
   \<and> requests (autocompleteTimeoutFired asciiToLowerCase (typeText (str ''h'') started))
       = requests started
   \<and> handleAutocomplete asciiToLowerCase (str ''ho'') (typeText (str ''ho'') started)
       = Awaits (logRequest ''autocomplete'' (str ''ho'') (typeText (str ''ho'') started))"
  by code_simp

text \<open>
  Claim C5. The lookup of the last word is made exactly when the resolver has made the
  lookup of the whole query, that lookup was answered with a status that is not OK, the
  last word differs from the whole normalized query and has two code units or more. When
  the first lookup was not OK and the second is not made or gives no suggestion list that
  is not empty, the dropdown ends hidden.
\<close>

theorem C5_last_word_fallback:
  "(requests (afterStep w (handleAutocomplete_run toLowerCase q r1 r2 w)) =
      requests w @ [(''autocomplete'', toLowerCase (trim q)),
                    (''autocomplete'', last (splitRuns isWhiteSpace (toLowerCase (trim q))))]
    \<longleftrightarrow>
      reachesRemote toLowerCase q \<and> nonOk r1
      \<and> last (splitRuns isWhiteSpace (toLowerCase (trim q))) \<noteq> toLowerCase (trim q)
      \<and> 2 \<le> length (last (splitRuns isWhiteSpace (toLowerCase (trim q)))))
   \<and> (reachesRemote toLowerCase q \<and> nonOk r1 \<and> \<not> yieldsSuggestions r2 \<longrightarrow>
        \<not> autocompleteVisible (afterStep w (handleAutocomplete_run toLowerCase q r1 r2 w)))
   \<and> (reachesRemote toLowerCase q \<and> nonOk r1
        \<and> \<not> (last (splitRuns isWhiteSpace (toLowerCase (trim q))) \<noteq> toLowerCase (trim q)
             \<and> 2 \<le> length (last (splitRuns isWhiteSpace (toLowerCase (trim q))))) \<longrightarrow>
        \<not> autocompleteVisible (afterStep w (handleAutocomplete_run toLowerCase q r1 r2 w)))"
proof (cases "reachesRemote toLowerCase q")
  case False
  then show ?thesis
    by (simp add: handleAutocomplete_local)
next
  case True
  let ?tq = "toLowerCase (trim q)"
  let ?lw = "last (splitRuns isWhiteSpace ?tq)"
  let ?w' = "afterStep w (handleAutocomplete_run toLowerCase q r1 r2 w)"
  note h = run_remote [OF True, of w r1 r2]
  have a: "nonOk r1 \<and> \<not> yieldsSuggestions r2 \<longrightarrow> \<not> autocompleteVisible ?w'"
    unfolding h autocompleteVisible_def by (rule impI) (rule hidden_after_fallback, simp_all)
  have b: "nonOk r1 \<and> \<not> (?lw \<noteq> ?tq \<and> 2 \<le> length ?lw) \<longrightarrow> \<not> autocompleteVisible ?w'"
    unfolding h autocompleteVisible_def by (rule impI) (rule hidden_without_fallback, simp_all)
  have c: "requests ?w' = requests w @ [(''autocomplete'', ?tq), (''autocomplete'', ?lw)]
    \<longleftrightarrow> nonOk r1 \<and> ?lw \<noteq> ?tq \<and> 2 \<le> length ?lw"
    unfolding h by (simp add: requests_resume conj_commute)
  show ?thesis
    using True a b c by simp
qed

lemma zz_top_remote: "reachesRemote asciiToLowerCase (str ''zz top'')"
  by code_simp

lemma zz_top_words:
  "asciiToLowerCase (trim (str ''zz top'')) = str ''zz top''"
  "last (splitRuns isWhiteSpace (str ''zz top'')) = str ''top''"
  by code_simp+

lemma zzAccent_remote: "reachesRemote asciiToLowerCase zzAccent"
  by code_simp

lemma zzAccent_words:
  "asciiToLowerCase (trim zzAccent) = zzAccent"
  "last (splitRuns isWhiteSpace zzAccent) = [(CHR 0x00, CHR 0xE9)]"
  by code_simp+

lemma serverError_nonOk: "nonOk serverError" "\<not> yieldsSuggestions noSuggestions"
  by code_simp+

theorem C5_last_word_fallback_witness:
  "reachesRemote asciiToLowerCase (str ''zz top'') \<and> nonOk serverError
   \<and> \<not> yieldsSuggestions noSuggestions
   \<and> requests (afterStep started
         (handleAutocomplete_run asciiToLowerCase (str ''zz top'') serverError noSuggestions
            started))
       = requests started @ [(''autocomplete'', str ''zz top''), (''autocomplete'', str ''top'')]
   \<and> \<not> autocompleteVisible
         (afterStep started
            (handleAutocomplete_run asciiToLowerCase (str ''zz top'') serverError noSuggestions
               started))
   \<and> reachesRemote asciiToLowerCase zzAccent
   \<and> length (last (splitRuns isWhiteSpace (asciiToLowerCase (trim zzAccent)))) = 1
   \<and> requests (afterStep started
         (handleAutocomplete_run asciiToLowerCase zzAccent serverError
            (Response True 200 (Json (Some carriers))) started))
       \<noteq> requests started @ [(''autocomplete'', zzAccent),
                               (''autocomplete'', [(CHR 0x00, CHR 0xE9)])]
   \<and> \<not> autocompleteVisible
         (afterStep started
            (handleAutocomplete_run asciiToLowerCase zzAccent serverError
               (Response True 200 (Json (Some carriers))) started))"
proof -
  have one: "length (last (splitRuns isWhiteSpace (asciiToLowerCase (trim zzAccent)))) = 1"
    by (simp add: zzAccent_words)
  have top: "requests (afterStep started
         (handleAutocomplete_run asciiToLowerCase (str ''zz top'') serverError noSuggestions
            started))
       = requests started @ [(''autocomplete'', str ''zz top''), (''autocomplete'', str ''top'')]"
      "\<not> autocompleteVisible
         (afterStep started
            (handleAutocomplete_run asciiToLowerCase (str ''zz top'') serverError noSuggestions
               started))"
    using C5_last_word_fallback [of started asciiToLowerCase "str ''zz top''" serverError
            noSuggestions]
          zz_top_remote zz_top_words serverError_nonOk
    by simp_all
  have accent: "requests (afterStep started
         (handleAutocomplete_run asciiToLowerCase zzAccent serverError
            (Response True 200 (Json (Some carriers))) started))
       \<noteq> requests started @ [(''autocomplete'', zzAccent),
                               (''autocomplete'', [(CHR 0x00, CHR 0xE9)])]"
      "\<not> autocompleteVisible
         (afterStep started
            (handleAutocomplete_run asciiToLowerCase zzAccent serverError
               (Response True 200 (Json (Some carriers))) started))"
    using C5_last_word_fallback [of started asciiToLowerCase zzAccent serverError
            "Response True 200 (Json (Some carriers))"]
          zzAccent_remote zzAccent_words serverError_nonOk
    by simp_all
  from zz_top_remote serverError_nonOk top zzAccent_remote one accent show ?thesis
    by (intro conjI)
qed







end
